theory Spec2Isabelle
  imports Main "HOL-Library.Sublist"
begin

section \<open>Errors and dynamically typed values\<close>

text \<open>
  Go's \<open>error\<close> values as data. \<open>AWSError code message\<close> is an \<open>awserr.Error\<close> returned
  by the SDK client. The \<open>fmt.Errorf\<close> calls of the handlers are kept apart by the verb
  that formats the cause: \<open>%s\<close>, \<open>%v\<close> and \<open>%#v\<close> print the cause into a new message
  (the result cannot be unwrapped), \<open>%w\<close> wraps it. The first argument is the text of the
  format string before the cause. \<open>Panic\<close> stands for a run-time panic (a nil pointer
  dereferenced): the handler does not return, which the model writes as this error.
\<close>

datatype err =
    AWSError string string
  | Errorf string
  | ErrorfS string err
  | ErrorfW string err
  | ErrorfV string "err list"
  | TimeoutError string
  | UnexpectedStateError string
  | Panic string

text \<open>
  Modelled from the spec: \<open>isAWSErr(err, code, "")\<close> is a helper of the provider that is
  not among the sources. An error "carries a machine-readable error code" (section 6);
  the helper holds when the error, or an error it wraps with \<open>%w\<close>, is an AWS error with
  that code (the empty message argument matches every message).
\<close>

fun isAWSErr :: "err \<Rightarrow> string \<Rightarrow> bool" where
  "isAWSErr (AWSError c m) code = (c = code)"
| "isAWSErr (ErrorfW txt e) code = isAWSErr e code"
| "isAWSErr e code = False"

text \<open>The values a \<open>map[string]interface{}\<close> can hold, as far as the handlers look.\<close>

datatype iface =
    IString string
  | IInt int
  | IBool bool
  | INil
  | IList "iface list"
  | IMap "(string \<times> iface) list"

text \<open>The comma-ok type assertion \<open>x.(string)\<close> on the result of a map lookup.\<close>

fun assertString :: "iface option \<Rightarrow> string \<times> bool" where
  "assertString (Some (IString s)) = (s, True)"
| "assertString v = ([], False)"

section \<open>SSM document: permissions\<close>

definition SSM_DOCUMENT_PERMISSIONS_BATCH_LIMIT :: nat where
  "SSM_DOCUMENT_PERMISSIONS_BATCH_LIMIT = 20"

definition DocumentPermissionTypeShare :: string where
  "DocumentPermissionTypeShare = ''Share''"

definition validateSSMDocumentPermissions :: "(string \<rightharpoonup> iface) \<Rightarrow> err list" where
  "validateSSMDocumentPermissions v =
     (let (t, hasType) = assertString (v ''type'');
          (a, hasAccountIds) = assertString (v ''account_ids'');
          errors1 =
            (if hasType
             then (if t \<noteq> DocumentPermissionTypeShare
                   then [Errorf ''permissions: only Share type supported'']
                   else [])
             else [Errorf ''permissions: type must be defined'']);
          errors2 =
            (if \<not> hasAccountIds
             then errors1 @ [Errorf ''permissions: account_ids must be defined'']
             else errors1)
      in errors2)"

subsection \<open>The comma-joined encoding of account ids\<close>

text \<open>
  \<open>strings.Split(s, ",")\<close> and \<open>strings.Join(xs, ",")\<close> of Go's standard library, for a
  separator of one character. Splitting the empty string gives one empty part.
\<close>

fun strings_Split :: "char \<Rightarrow> string \<Rightarrow> string list" where
  "strings_Split sep [] = [[]]"
| "strings_Split sep (c # cs) =
     (if c = sep then [] # strings_Split sep cs
      else (case strings_Split sep cs of
              [] \<Rightarrow> [[c]]
            | p # ps \<Rightarrow> (c # p) # ps))"

fun strings_Join :: "char \<Rightarrow> string list \<Rightarrow> string" where
  "strings_Join sep [] = []"
| "strings_Join sep [x] = x"
| "strings_Join sep (x # y # ys) = x @ sep # strings_Join sep (y # ys)"

text \<open>
  \<open>getDocumentPermissions\<close>, after the describe call: the account ids of the response
  become one string.
\<close>

definition joinAccountIds :: "string list \<Rightarrow> string" where
  "joinAccountIds account_ids =
     (if length account_ids = 1 then account_ids ! 0
      else if length account_ids > 1 then strings_Join (CHR '','') account_ids
      else [])"

text \<open>
  The decoding shared by \<open>setDocumentPermissions\<close> (twice) and
  \<open>deleteDocumentPermissions\<close>: the entry \<open>account_ids\<close> of a permissions map, split at
  the commas when it is present and not empty. The schema makes the entries strings
  (\<open>Elem: TypeString\<close>), so the unchecked assertion \<open>v.(string)\<close> reads a string.
\<close>

fun ifaceString :: "iface \<Rightarrow> string" where
  "ifaceString (IString s) = s"
| "ifaceString v = []"

definition splitAccountIds :: "(string \<rightharpoonup> iface) \<Rightarrow> string list" where
  "splitAccountIds permissions =
     (case permissions ''account_ids'' of
        None \<Rightarrow> []
      | Some v \<Rightarrow>
          (if ifaceString v \<noteq> [] then strings_Split (CHR '','') (ifaceString v) else []))"

subsection \<open>The account-id diff of \<open>setDocumentPermissions\<close>\<close>

text \<open>
  The two filter loops of \<open>setDocumentPermissions\<close> that fill its local slices
  \<open>accountIdsToRemove\<close> and \<open>accountIdsToAdd\<close>.


  Modelled from the spec: \<open>sliceContainsString\<close> is a helper of the provider that is not
  among the sources; it tells whether the string occurs in the slice.
\<close>

definition sliceContainsString :: "string list \<Rightarrow> string \<Rightarrow> bool" where
  "sliceContainsString slice s = (s \<in> set slice)"

definition diffAccountIdsToRemove :: "string list \<Rightarrow> string list \<Rightarrow> string list" where
  "diffAccountIdsToRemove oldIds newIds = filter (\<lambda>i. \<not> sliceContainsString newIds i) oldIds"

definition diffAccountIdsToAdd :: "string list \<Rightarrow> string list \<Rightarrow> string list" where
  "diffAccountIdsToAdd oldIds newIds = filter (\<lambda>i. \<not> sliceContainsString oldIds i) newIds"

text \<open>
  What one \<open>ModifyDocumentPermission\<close> request does to the set of accounts a document is
  shared with: the ids to add are added and the ids to remove are removed, removal
  winning ("AccountIdsToRemove has higher priority than AccountIdsToAdd", as the source
  notes).
\<close>

definition applyAccountIdDiff :: "string list \<times> string list \<Rightarrow> string set \<Rightarrow> string set" where
  "applyAccountIdDiff diff shared = (shared \<union> set (fst diff)) - set (snd diff)"

subsection \<open>Tag reconciliation\<close>

text \<open>
  Modelled from the spec: the tag diff (\<open>keyvaluetags\<close>) is not among the sources.
  Section 4.2: "Keys present only in old: remove. Keys present only in new, or present in
  both with different values: add/set."
\<close>

definition tagsRemoved :: "('k \<rightharpoonup> 'v) \<Rightarrow> ('k \<rightharpoonup> 'v) \<Rightarrow> 'k set" where
  "tagsRemoved old new = dom old - dom new"

definition tagsUpdated :: "('k \<rightharpoonup> 'v) \<Rightarrow> ('k \<rightharpoonup> 'v) \<Rightarrow> ('k \<rightharpoonup> 'v)" where
  "tagsUpdated old new = (\<lambda>k. if old k = new k then None else new k)"

definition applyTagDiff :: "'k set \<times> ('k \<rightharpoonup> 'v) \<Rightarrow> ('k \<rightharpoonup> 'v) \<Rightarrow> ('k \<rightharpoonup> 'v)" where
  "applyTagDiff diff tags = (\<lambda>k. if k \<in> fst diff then None else tags k) ++ snd diff"

subsection \<open>Batches of account ids\<close>

text \<open>
  The first loop of each half of \<open>modifyDocumentPermissions\<close>: the finished batches and
  the batch being filled. A full batch is put aside when the next id arrives.
\<close>

fun batchLoop :: "string list \<Rightarrow> string list list \<Rightarrow> string list \<Rightarrow> string list list \<times> string list" where
  "batchLoop [] batches batch = (batches, batch)"
| "batchLoop (accountId # rest) batches batch =
     (if length batch = SSM_DOCUMENT_PERMISSIONS_BATCH_LIMIT
      then batchLoop rest (batches @ [batch]) [accountId]
      else batchLoop rest batches (batch @ [accountId]))"

definition accountIdBatches :: "string list \<Rightarrow> string list list" where
  "accountIdBatches accountIds =
     (let (batches, batch) = batchLoop accountIds [] [] in batches @ [batch])"

section \<open>The cloud, as the handlers see it\<close>

text \<open>
  Tags are opaque here: the \<open>keyvaluetags\<close> package is not among the sources, and the
  handlers only pass tags along.
\<close>

type_synonym tags = "(string \<times> string) list"

definition aws_StringValue :: "string option \<Rightarrow> string" where
  "aws_StringValue p = (case p of None \<Rightarrow> [] | Some s \<Rightarrow> s)"

record AttachmentsSource =
  as_Key :: "string option"
  as_Name :: "string option"
  as_Values :: "string list"

record CreateDocumentInput =
  cdi_Name :: string
  cdi_Content :: string
  cdi_DocumentFormat :: string
  cdi_DocumentType :: string
  cdi_Tags :: "tags option"
  cdi_Attachments :: "AttachmentsSource list option"
  cdi_TargetType :: "string option"
  cdi_VersionName :: "string option"

record DocumentParameter =
  dp_DefaultValue :: "string option"
  dp_Description :: "string option"
  dp_Name :: "string option"
  dp_Type :: "string option"

text \<open>
  The document description of a describe or create response. Create reads the name
  through \<open>aws.StringValue\<close>; Read dereferences it, so a description without a name
  is a panic there, as is a create response without a description.
\<close>

record DocumentDescription =
  dd_Name :: "string option"
  dd_CreatedDate :: string
  dd_DefaultVersion :: "string option"
  dd_Description :: "string option"
  dd_SchemaVersion :: "string option"
  dd_DocumentFormat :: "string option"
  dd_DocumentType :: "string option"
  dd_DocumentVersion :: "string option"
  dd_Hash :: "string option"
  dd_HashType :: "string option"
  dd_LatestVersion :: "string option"
  dd_VersionName :: "string option"
  dd_Owner :: "string option"
  dd_PlatformTypes :: "string list"
  dd_Status :: "string option"
  dd_Parameters :: "DocumentParameter list"
  dd_Tags :: tags
  dd_TargetType :: "string option"

text \<open>Batch compute environments.\<close>

record LaunchTemplateSpecification =
  lt_LaunchTemplateId :: string
  lt_LaunchTemplateName :: string
  lt_Version :: string

text \<open>
  One element of the configuration list \<open>compute_resources\<close>. The framework builds the
  element from the schema, so every key of the schema is present in it.
\<close>

record compute_resource =
  cr_allocation_strategy :: string
  cr_bid_percentage :: int
  cr_desired_vcpus :: int
  cr_ec2_key_pair :: string
  cr_image_id :: string
  cr_instance_role :: string
  cr_instance_type :: "string list"
  cr_launch_template :: "LaunchTemplateSpecification list"
  cr_max_vcpus :: int
  cr_min_vcpus :: int
  cr_security_group_ids :: "string list"
  cr_spot_iam_fleet_role :: string
  cr_subnets :: "string list"
  cr_tags :: tags
  cr_type :: string

record ComputeResource =
  CR_AllocationStrategy :: "string option"
  CR_BidPercentage :: "int option"
  CR_DesiredvCpus :: "int option"
  CR_Ec2KeyPair :: "string option"
  CR_ImageId :: "string option"
  CR_InstanceRole :: "string option"
  CR_InstanceTypes :: "string list"
  CR_LaunchTemplate :: "LaunchTemplateSpecification option"
  CR_MaxvCpus :: "int option"
  CR_MinvCpus :: "int option"
  CR_SecurityGroupIds :: "string list"
  CR_SpotIamFleetRole :: "string option"
  CR_Subnets :: "string list"
  CR_Tags :: "tags option"
  CR_Type :: "string option"

record CreateComputeEnvironmentInput =
  cce_ComputeEnvironmentName :: string
  cce_ServiceRole :: string
  cce_Type :: string
  cce_State :: "string option"
  cce_Tags :: "tags option"
  cce_ComputeResources :: "ComputeResource option"

text \<open>
  A compute environment of a describe response. The source reads \<open>Status\<close> by
  dereferencing the pointer, and the compute resources of a managed environment
  likewise; a response without them makes the Go code panic (see \<open>Panic\<close> below).
\<close>

record ComputeEnvironmentDetail =
  ce_ComputeEnvironmentArn :: "string option"
  ce_ComputeResources :: "ComputeResource option"
  ce_EcsClusterArn :: "string option"
  ce_ServiceRole :: "string option"
  ce_State :: "string option"
  ce_Status :: "string option"
  ce_StatusReason :: "string option"
  ce_Tags :: tags
  ce_Type :: "string option"

text \<open>Load balancers and their network interfaces.\<close>

record SubnetMapping =
  sm_SubnetId :: string
  sm_AllocationId :: "string option"
  sm_PrivateIPv4Address :: "string option"
  sm_IPv6Address :: "string option"

record CreateLoadBalancerInput =
  clb_Name :: string
  clb_Type :: string
  clb_Tags :: "tags option"
  clb_Scheme :: "string option"
  clb_SecurityGroups :: "string list option"
  clb_Subnets :: "string list option"
  clb_SubnetMappings :: "SubnetMapping list option"
  clb_IpAddressType :: "string option"
  clb_CustomerOwnedIpv4Pool :: "string option"

record LoadBalancerAddress =
  lba_AllocationId :: "string option"
  lba_PrivateIPv4Address :: "string option"
  lba_IPv6Address :: "string option"

record AvailabilityZone =
  az_SubnetId :: "string option"
  az_OutpostId :: "string option"
  az_LoadBalancerAddresses :: "LoadBalancerAddress list"

record LoadBalancer =
  lb_LoadBalancerArn :: "string option"
  lb_LoadBalancerName :: "string option"
  lb_Scheme :: "string option"
  lb_SecurityGroups :: "string list"
  lb_VpcId :: "string option"
  lb_CanonicalHostedZoneId :: "string option"
  lb_DNSName :: "string option"
  lb_IpAddressType :: "string option"
  lb_Type :: "string option"
  lb_CustomerOwnedIpv4Pool :: "string option"
  lb_AvailabilityZones :: "AvailabilityZone list"

text \<open>A network interface is only passed on, so its id stands for it.\<close>

type_synonym NetworkInterface = string

type_synonym LoadBalancerAttribute = "string \<times> string"

type_synonym Filter = "string \<times> string list"

text \<open>
  Every request a handler sends, in the order sent. The log is the only state of the
  cloud the model keeps: a response is a function of the requests sent so far, the
  current one last, so the cloud may answer the same request differently the next time
  (as a describe call does while a resource is being created). The helpers of the
  provider that are not among the sources and talk to the cloud themselves (waiters,
  finders, tag updates, network-interface helpers) are logged as one request each.
\<close>

datatype api_call =
    CreateDocument CreateDocumentInput
  | DescribeDocument string
  | GetDocument "string option" "string option"
  | DescribeDocumentPermission string string
  | ModifyDocumentPermission string string "string list" "string list"
  | DeleteDocument string
  | WaiterDocumentActive string
  | WaiterDocumentDeleted string
  | CreateComputeEnvironment CreateComputeEnvironmentInput
  | DescribeComputeEnvironments "string list"
  | UpdateComputeEnvironment string "string option"
  | DeleteComputeEnvironment string
  | CreateLoadBalancer CreateLoadBalancerInput
  | DeleteLoadBalancer string
  | Elbv2UpdateTags string tags tags
  | ModifyLoadBalancerAttributes string "LoadBalancerAttribute list"
  | SetSecurityGroups string "string list"
  | SetSubnets string "string list"
  | SetIpAddressType string string
  | WaiterLoadBalancerActive string
  | FinderLoadBalancerByARN string
  | Elbv2ListTags string
  | DescribeLoadBalancerAttributes string
  | DescribeNetworkInterfaces "Filter list"
  | DetachNetworkInterfaces "NetworkInterface list"
  | DeleteNetworkInterfaces "NetworkInterface list"

record ssm_conn =
  ssm_CreateDocument :: "api_call list \<Rightarrow> err + DocumentDescription option"
  ssm_DescribeDocument :: "api_call list \<Rightarrow> err + DocumentDescription option"
  ssm_GetDocument :: "api_call list \<Rightarrow> err + string option option"
  ssm_DescribeDocumentPermission :: "api_call list \<Rightarrow> err + string list"
  ssm_ModifyDocumentPermission :: "api_call list \<Rightarrow> err option"
  ssm_DeleteDocument :: "api_call list \<Rightarrow> err option"
  ssm_waiter_DocumentActive :: "api_call list \<Rightarrow> err option"
  ssm_waiter_DocumentDeleted :: "api_call list \<Rightarrow> err option"

record batch_conn =
  batch_CreateComputeEnvironment :: "api_call list \<Rightarrow> err option"
  batch_DescribeComputeEnvironments :: "api_call list \<Rightarrow> err + ComputeEnvironmentDetail list"
  batch_UpdateComputeEnvironment :: "api_call list \<Rightarrow> err option"
  batch_DeleteComputeEnvironment :: "api_call list \<Rightarrow> err option"

record elbv2_conn =
  elbv2_CreateLoadBalancer :: "api_call list \<Rightarrow> err + LoadBalancer list"
  elbv2_DeleteLoadBalancer :: "api_call list \<Rightarrow> err option"
  elbv2_UpdateTags :: "api_call list \<Rightarrow> err option"
  elbv2_ModifyLoadBalancerAttributes :: "api_call list \<Rightarrow> err option"
  elbv2_SetSecurityGroups :: "api_call list \<Rightarrow> err option"
  elbv2_SetSubnets :: "api_call list \<Rightarrow> err option"
  elbv2_SetIpAddressType :: "api_call list \<Rightarrow> err option"
  elbv2_waiter_LoadBalancerActive :: "api_call list \<Rightarrow> err option"
  elbv2_finder_LoadBalancerByARN :: "api_call list \<Rightarrow> err + LoadBalancer option"
  elbv2_ListTags :: "api_call list \<Rightarrow> err + tags"
  elbv2_DescribeLoadBalancerAttributes :: "api_call list \<Rightarrow> err + LoadBalancerAttribute list"

record ec2_conn =
  ec2_DescribeNetworkInterfaces :: "api_call list \<Rightarrow> err + NetworkInterface list"
  ec2_detachNetworkInterfaces :: "api_call list \<Rightarrow> err option"
  ec2_deleteNetworkInterfaces :: "api_call list \<Rightarrow> err option"

text \<open>
  \<open>meta.(*AWSClient)\<close>: the connections, the identity of the account, and what the
  handlers use of packages that are not among the sources, taken as parameters: the
  tag configuration of the provider (\<open>keyvaluetags\<close>), the name generator of the
  framework (\<open>resource.UniqueId\<close>, \<open>resource.PrefixedUniqueId\<close>) and two timeouts
  of the \<open>waiter\<close> package, each as the number of further attempts that fit into it.
\<close>

record AWSClient =
  ssmconn :: ssm_conn
  batchconn :: batch_conn
  elbv2conn :: elbv2_conn
  ec2conn :: ec2_conn
  client_partition :: string
  client_region :: string
  client_accountid :: string
  MergeTags :: "tags \<Rightarrow> tags"
  IgnoreAws :: "tags \<Rightarrow> tags"
  IgnoreConfig :: "tags \<Rightarrow> tags"
  RemoveDefaultConfig :: "tags \<Rightarrow> tags"
  UniqueId :: string
  PrefixedUniqueId :: "string \<Rightarrow> string"
  LoadBalancerTagPropagationTimeout :: nat
  LoadBalancerNetworkInterfaceDetachTimeout :: nat

text \<open>
  \<open>*schema.ResourceData\<close>: the id, whether the resource is being created, the values
  of the prior state and the current values (\<open>d.Get\<close> reads them, \<open>d.Set\<close> writes
  them). \<open>d.Timeout(key)\<close> is given as the number of further polls, five seconds apart,
  that fit into the duration.
\<close>

record 'c ResourceData =
  rd_Id :: string
  rd_IsNewResource :: bool
  rd_state :: 'c
  rd_cfg :: 'c
  rd_Timeout :: "string \<Rightarrow> nat"

subsection \<open>\<open>modifyDocumentPermissions\<close>\<close>

text \<open>
  The second loop of each half: one \<open>ModifyDocumentPermission\<close> request for each batch,
  stopping at the first error. \<open>mk\<close> builds the request from the batch.
\<close>

fun modifyBatches ::
  "ssm_conn \<Rightarrow> (string list \<Rightarrow> api_call) \<Rightarrow> string list list \<Rightarrow> api_call list
     \<Rightarrow> err option \<times> api_call list" where
  "modifyBatches conn mk [] cs = (None, cs)"
| "modifyBatches conn mk (batch # batches) cs =
     (case ssm_ModifyDocumentPermission conn (cs @ [mk batch]) of
        Some e \<Rightarrow> (Some e, cs @ [mk batch])
      | None \<Rightarrow> modifyBatches conn mk batches (cs @ [mk batch]))"

text \<open>A nil slice is \<open>None\<close>; an empty slice that is not nil is \<open>Some []\<close>.\<close>

definition modifyDocumentPermissions ::
  "ssm_conn \<Rightarrow> string \<Rightarrow> string list option \<Rightarrow> string list option \<Rightarrow> api_call list
     \<Rightarrow> err option \<times> api_call list" where
  "modifyDocumentPermissions conn name accountIdsToAdd accountIdstoRemove cs =
     (case (case accountIdsToAdd of
              None \<Rightarrow> (None, cs)
            | Some ids \<Rightarrow>
                modifyBatches conn (\<lambda>b. ModifyDocumentPermission name ''Share'' b [])
                  (accountIdBatches ids) cs) of
        (Some e, cs1) \<Rightarrow> (Some e, cs1)
      | (None, cs1) \<Rightarrow>
          (case accountIdstoRemove of
             None \<Rightarrow> (None, cs1)
           | Some ids \<Rightarrow>
               modifyBatches conn (\<lambda>b. ModifyDocumentPermission name ''Share'' [] b)
                 (accountIdBatches ids) cs1))"

section \<open>SSM document: the handlers\<close>

record attachments_source =
  at_key :: string
  at_name :: string
  at_values :: "string list"

record ssm_document =
  sd_name :: string
  sd_content :: string
  sd_document_format :: string
  sd_document_type :: string
  sd_target_type :: string
  sd_version_name :: string
  sd_attachments_source :: "attachments_source list"
  sd_tags :: tags
  sd_tags_all :: tags
  sd_permissions :: "string \<rightharpoonup> iface"
  sd_arn :: string
  sd_status :: string
  sd_created_date :: string
  sd_default_version :: string
  sd_description :: string
  sd_schema_version :: string
  sd_document_version :: string
  sd_hash :: string
  sd_hash_type :: string
  sd_latest_version :: string
  sd_owner :: string
  sd_platform_types :: "string list"
  sd_parameter :: "(string \<times> iface) list list"

definition ErrCodeInvalidDocument :: string where
  "ErrCodeInvalidDocument = ''InvalidDocument''"

definition expandSsmAttachmentsSources :: "attachments_source list \<Rightarrow> AttachmentsSource list option" where
  "expandSsmAttachmentsSources a =
     (if length a = 0 then None
      else Some (map (\<lambda>at. \<lparr> as_Key = Some (at_key at),
                              as_Name = (if at_name at \<noteq> [] then Some (at_name at) else None),
                              as_Values = at_values at \<rparr>) a))"

definition setDocumentPermissions ::
  "AWSClient \<Rightarrow> ssm_document ResourceData \<Rightarrow> api_call list \<Rightarrow> err option \<times> api_call list" where
  "setDocumentPermissions meta d cs =
     (if sd_permissions (rd_state d) \<noteq> sd_permissions (rd_cfg d)
      then
        (let oldPermissionsAccountIds = splitAccountIds (sd_permissions (rd_state d));
             newPermissionsAccountIds = splitAccountIds (sd_permissions (rd_cfg d));
             accountIdsToRemove =
               diffAccountIdsToRemove oldPermissionsAccountIds newPermissionsAccountIds;
             accountIdsToAdd =
               diffAccountIdsToAdd oldPermissionsAccountIds newPermissionsAccountIds
         in case modifyDocumentPermissions (ssmconn meta) (sd_name (rd_cfg d))
                   (Some accountIdsToAdd) (Some accountIdsToRemove) cs of
              (Some e, cs1) \<Rightarrow>
                (Some (ErrorfS ''error modifying SSM document permissions: '' e), cs1)
            | (None, cs1) \<Rightarrow> (None, cs1))
      else (None, cs))"

text \<open>A nil map is the empty map.\<close>

definition getDocumentPermissions ::
  "AWSClient \<Rightarrow> ssm_document ResourceData \<Rightarrow> api_call list
     \<Rightarrow> (err + (string \<rightharpoonup> iface)) \<times> api_call list" where
  "getDocumentPermissions meta d cs =
     (let permissionType = ''Share'';
          cs1 = cs @ [DescribeDocumentPermission (sd_name (rd_cfg d)) permissionType]
      in case ssm_DescribeDocumentPermission (ssmconn meta) cs1 of
           Inl e \<Rightarrow> (Inl (ErrorfS ''Error setting permissions for SSM document: '' e), cs1)
         | Inr account_ids \<Rightarrow>
             (let ids = joinAccountIds account_ids
              in if ids = [] then (Inr Map.empty, cs1)
                 else (Inr [''type'' \<mapsto> IString permissionType,
                            ''account_ids'' \<mapsto> IString ids], cs1)))"

definition deleteDocumentPermissions ::
  "AWSClient \<Rightarrow> ssm_document ResourceData \<Rightarrow> api_call list \<Rightarrow> err option \<times> api_call list" where
  "deleteDocumentPermissions meta d cs =
     (let permission = sd_permissions (rd_cfg d)
      in if permission ''account_ids'' \<noteq> None \<and> permission ''account_ids'' \<noteq> Some INil
         then
           (case modifyDocumentPermissions (ssmconn meta) (sd_name (rd_cfg d))
                   None (Some (splitAccountIds permission)) cs of
              (Some e, cs1) \<Rightarrow>
                (Some (ErrorfS ''error removing SSM document permissions: '' e), cs1)
            | (None, cs1) \<Rightarrow> (None, cs1))
         else (None, cs))"

definition flattenDocumentParameter :: "DocumentParameter \<Rightarrow> (string \<times> iface) list" where
  "flattenDocumentParameter dp =
     (case dp_DefaultValue dp of None \<Rightarrow> [] | Some v \<Rightarrow> [(''default_value'', IString v)]) @
     (case dp_Description dp of None \<Rightarrow> [] | Some v \<Rightarrow> [(''description'', IString v)]) @
     (case dp_Name dp of None \<Rightarrow> [] | Some v \<Rightarrow> [(''name'', IString v)]) @
     (case dp_Type dp of None \<Rightarrow> [] | Some v \<Rightarrow> [(''type'', IString v)])"

text \<open>
  Read. \<open>d.Set\<close> fails only when the value does not fit the schema of the key; the
  values written here fit, so the error branches after \<open>d.Set\<close> are not taken.
\<close>

definition resourceAwsSsmDocumentRead ::
  "AWSClient \<Rightarrow> ssm_document ResourceData \<Rightarrow> api_call list
     \<Rightarrow> err option \<times> ssm_document ResourceData \<times> api_call list" where
  "resourceAwsSsmDocumentRead meta d cs =
     (let cs1 = cs @ [DescribeDocument (rd_Id d)]
      in case ssm_DescribeDocument (ssmconn meta) cs1 of
           Inl err \<Rightarrow>
             (if isAWSErr err ErrCodeInvalidDocument
              then (None, d\<lparr>rd_Id := []\<rparr>, cs1)
              else (Some (ErrorfS ''error describing SSM Document: '' err), d, cs1))
         | Inr None \<Rightarrow> (Some (Errorf ''error describing SSM Document: empty result''), d, cs1)
         | Inr (Some doc) \<Rightarrow>
             (let cs2 = cs1 @ [GetDocument (dd_DocumentFormat doc) (dd_Name doc)]
              in case ssm_GetDocument (ssmconn meta) cs2 of
                   Inl err \<Rightarrow> (Some (ErrorfS ''error getting SSM Document: '' err), d, cs2)
                 | Inr None \<Rightarrow> (Some (Errorf ''error getting SSM Document: empty result''), d, cs2)
                 | Inr (Some content) \<Rightarrow>
                     (let d1 = d\<lparr>rd_cfg := (rd_cfg d)
                            \<lparr> sd_content := aws_StringValue content,
                              sd_created_date := dd_CreatedDate doc,
                              sd_default_version := aws_StringValue (dd_DefaultVersion doc),
                              sd_description := aws_StringValue (dd_Description doc),
                              sd_schema_version := aws_StringValue (dd_SchemaVersion doc),
                              sd_document_format := aws_StringValue (dd_DocumentFormat doc),
                              sd_document_type := aws_StringValue (dd_DocumentType doc),
                              sd_document_version := aws_StringValue (dd_DocumentVersion doc),
                              sd_hash := aws_StringValue (dd_Hash doc),
                              sd_hash_type := aws_StringValue (dd_HashType doc),
                              sd_latest_version := aws_StringValue (dd_LatestVersion doc),
                              sd_version_name := aws_StringValue (dd_VersionName doc),
                              sd_name := aws_StringValue (dd_Name doc),
                              sd_owner := aws_StringValue (dd_Owner doc),
                              sd_platform_types := dd_PlatformTypes doc \<rparr>\<rparr>
                      in case dd_Name doc of
                           None \<Rightarrow> (Some (Panic ''nil pointer dereference''), d1, cs2)
                         | Some docName \<Rightarrow>
                             (let arn = ''arn:'' @ client_partition meta @ '':ssm:'' @ client_region meta
                                          @ '':'' @ client_accountid meta @ '':document/'' @ docName;
                                  d2 = d1\<lparr>rd_cfg := (rd_cfg d1)
                                         \<lparr> sd_arn := arn,
                                           sd_status := aws_StringValue (dd_Status doc) \<rparr>\<rparr>
                              in case getDocumentPermissions meta d2 cs2 of
                                   (Inl err, cs3) \<Rightarrow>
                                     (Some (ErrorfS ''Error reading SSM document permissions: '' err), d2, cs3)
                                 | (Inr gp, cs3) \<Rightarrow>
                                     (let tags = IgnoreConfig meta (IgnoreAws meta (dd_Tags doc));
                                          d3 = d2\<lparr>rd_cfg := (rd_cfg d2)
                                                 \<lparr> sd_permissions := gp,
                                                   sd_parameter := map flattenDocumentParameter (dd_Parameters doc),
                                                   sd_tags := RemoveDefaultConfig meta tags,
                                                   sd_tags_all := tags,
                                                   sd_target_type := aws_StringValue (dd_TargetType doc) \<rparr>\<rparr>
                                      in (None, d3, cs3))))))"

text \<open>
  Create. \<open>d.GetOk\<close> of the framework reports a value as set when it differs from the
  zero value of its type: a string that is not empty, a map or list with an entry.
\<close>

text \<open>The request \<open>docInput\<close> that \<open>resourceAwsSsmDocumentCreate\<close> builds.\<close>

definition createDocumentInput :: "AWSClient \<Rightarrow> ssm_document ResourceData \<Rightarrow> CreateDocumentInput" where
  "createDocumentInput meta d =
     (let tags = MergeTags meta (sd_tags (rd_cfg d))
      in \<lparr> cdi_Name = sd_name (rd_cfg d),
           cdi_Content = sd_content (rd_cfg d),
           cdi_DocumentFormat = sd_document_format (rd_cfg d),
           cdi_DocumentType = sd_document_type (rd_cfg d),
           cdi_Tags = (if length tags > 0 then Some (IgnoreAws meta tags) else None),
           cdi_Attachments =
             (if sd_attachments_source (rd_cfg d) \<noteq> []
              then expandSsmAttachmentsSources (sd_attachments_source (rd_cfg d))
              else None),
           cdi_TargetType =
             (if sd_target_type (rd_cfg d) \<noteq> [] then Some (sd_target_type (rd_cfg d))
              else None),
           cdi_VersionName =
             (if sd_version_name (rd_cfg d) \<noteq> [] then Some (sd_version_name (rd_cfg d))
              else None) \<rparr>)"

definition resourceAwsSsmDocumentCreate ::
  "AWSClient \<Rightarrow> ssm_document ResourceData \<Rightarrow> api_call list
     \<Rightarrow> err option \<times> ssm_document ResourceData \<times> api_call list" where
  "resourceAwsSsmDocumentCreate meta d cs =
     (let errors = (if sd_permissions (rd_cfg d) \<noteq> Map.empty
                    then validateSSMDocumentPermissions (sd_permissions (rd_cfg d))
                    else [])
      in if length errors > 0
         then (Some (ErrorfV ''Error validating Permissions: '' errors), d, cs)
         else
           (let docInput = createDocumentInput meta d;
                cs1 = cs @ [CreateDocument docInput]
            in case ssm_CreateDocument (ssmconn meta) cs1 of
                 Inl err \<Rightarrow> (Some (ErrorfS ''Error creating SSM document: '' err), d, cs1)
               | Inr None \<Rightarrow> (Some (Panic ''nil pointer dereference''), d, cs1)
               | Inr (Some DocumentDescription) \<Rightarrow>
                   (let d1 = d\<lparr>rd_Id := aws_StringValue (dd_Name DocumentDescription)\<rparr>
                    in case (if sd_permissions (rd_cfg d1) \<noteq> Map.empty
                             then setDocumentPermissions meta d1 cs1
                             else (None, cs1)) of
                         (Some err, cs2) \<Rightarrow> (Some err, d1, cs2)
                       | (None, cs2) \<Rightarrow>
                           (let cs3 = cs2 @ [WaiterDocumentActive (rd_Id d1)]
                            in case ssm_waiter_DocumentActive (ssmconn meta) cs3 of
                                 Some err \<Rightarrow>
                                   (Some (ErrorfW ''error waiting for SSM Document to be Active: '' err),
                                    d1, cs3)
                               | None \<Rightarrow> resourceAwsSsmDocumentRead meta d1 cs3))))"

definition resourceAwsSsmDocumentDelete ::
  "AWSClient \<Rightarrow> ssm_document ResourceData \<Rightarrow> api_call list
     \<Rightarrow> err option \<times> ssm_document ResourceData \<times> api_call list" where
  "resourceAwsSsmDocumentDelete meta d cs =
     (case deleteDocumentPermissions meta d cs of
        (Some err, cs1) \<Rightarrow> (Some err, d, cs1)
      | (None, cs1) \<Rightarrow>
          (let cs2 = cs1 @ [DeleteDocument (sd_name (rd_cfg d))]
           in case ssm_DeleteDocument (ssmconn meta) cs2 of
                Some err \<Rightarrow> (Some err, d, cs2)
              | None \<Rightarrow>
                  (let cs3 = cs2 @ [WaiterDocumentDeleted (rd_Id d)]
                   in case ssm_waiter_DocumentDeleted (ssmconn meta) cs3 of
                        Some err \<Rightarrow>
                          (if isAWSErr err ErrCodeInvalidDocument then (None, d, cs3)
                           else (Some (ErrorfW ''error waiting for SSM Document to be Deleted: '' err),
                                 d, cs3))
                      | None \<Rightarrow> (None, d, cs3))))"

section \<open>Polling\<close>

text \<open>
  \<open>resource.StateChangeConf\<close> of the framework. \<open>Refresh\<close> returns the payload, the
  status and the error, and the log with the requests it sent. \<open>Timeout\<close> is the number
  of further polls that fit into the duration (the sleeps are not modelled).
\<close>

record 'r StateChangeConf =
  Pending :: "string list"
  Target :: "string list"
  Refresh :: "api_call list \<Rightarrow> ('r option \<times> string \<times> err option) \<times> api_call list"
  Timeout :: nat

text \<open>
  Modelled from the spec: \<open>WaitForState\<close> belongs to the framework and is not among the
  sources. Section 4.1: refresh at once; an error of the refresh fails the session at
  once; a status of the target set succeeds with the last payload; a status outside
  both sets is an unexpected terminal failure; a pending status polls again, until the
  timeout, which fails with the last status observed.
\<close>

primrec pollState ::
  "'r StateChangeConf \<Rightarrow> nat \<Rightarrow> api_call list \<Rightarrow> (err + 'r option) \<times> api_call list" where
  "pollState conf 0 cs =
     (case Refresh conf cs of
        ((res, currentState, Some e), cs1) \<Rightarrow> (Inl e, cs1)
      | ((res, currentState, None), cs1) \<Rightarrow>
          (if currentState \<in> set (Target conf) then (Inr res, cs1)
           else if currentState \<notin> set (Pending conf)
           then (Inl (UnexpectedStateError currentState), cs1)
           else (Inl (TimeoutError currentState), cs1)))"
| "pollState conf (Suc n) cs =
     (case Refresh conf cs of
        ((res, currentState, Some e), cs1) \<Rightarrow> (Inl e, cs1)
      | ((res, currentState, None), cs1) \<Rightarrow>
          (if currentState \<in> set (Target conf) then (Inr res, cs1)
           else if currentState \<notin> set (Pending conf)
           then (Inl (UnexpectedStateError currentState), cs1)
           else pollState conf n cs1))"

definition WaitForState ::
  "'r StateChangeConf \<Rightarrow> api_call list \<Rightarrow> (err + 'r option) \<times> api_call list" where
  "WaitForState conf cs = pollState conf (Timeout conf) cs"

section \<open>Batch compute environment: the handlers\<close>

record batch_compute_environment =
  bce_compute_environment_name :: string
  bce_compute_environment_name_prefix :: string
  bce_compute_resources :: "compute_resource list"
  bce_service_role :: string
  bce_state :: string
  bce_tags :: tags
  bce_tags_all :: tags
  bce_type :: string
  bce_arn :: string
  bce_ecs_cluster_arn :: string
  bce_status :: string
  bce_status_reason :: string

definition CETypeManaged :: string where "CETypeManaged = ''MANAGED''"
definition CEStateDisabled :: string where "CEStateDisabled = ''DISABLED''"
definition CEStatusCreating :: string where "CEStatusCreating = ''CREATING''"
definition CEStatusUpdating :: string where "CEStatusUpdating = ''UPDATING''"
definition CEStatusDeleting :: string where "CEStatusDeleting = ''DELETING''"
definition CEStatusDeleted :: string where "CEStatusDeleted = ''DELETED''"
definition CEStatusValid :: string where "CEStatusValid = ''VALID''"

definition aws_Int64Value :: "int option \<Rightarrow> int" where
  "aws_Int64Value p = (case p of None \<Rightarrow> 0 | Some n \<Rightarrow> n)"

text \<open>
  What the closure returned by \<open>resourceAwsBatchComputeEnvironmentStatusRefreshFunc\<close>
  does with the response of its describe call.
\<close>

definition statusRefreshResult ::
  "err + ComputeEnvironmentDetail list
     \<Rightarrow> ComputeEnvironmentDetail list option \<times> string \<times> err option" where
  "statusRefreshResult response =
     (case response of
        Inl err \<Rightarrow> (None, ''failed'', Some err)
      | Inr [] \<Rightarrow>
          (None, ''failed'',
           Some (Errorf ''One compute environment is expected, but AWS return no compute environment''))
      | Inr (computeEnvironment # others) \<Rightarrow>
          (case ce_Status computeEnvironment of
             None \<Rightarrow> (None, [], Some (Panic ''nil pointer dereference''))
           | Some status \<Rightarrow> (Some (computeEnvironment # others), status, None)))"

definition resourceAwsBatchComputeEnvironmentStatusRefreshFunc ::
  "string \<Rightarrow> batch_conn \<Rightarrow> api_call list
     \<Rightarrow> (ComputeEnvironmentDetail list option \<times> string \<times> err option) \<times> api_call list" where
  "resourceAwsBatchComputeEnvironmentStatusRefreshFunc computeEnvironmentName conn cs =
     (let cs1 = cs @ [DescribeComputeEnvironments [computeEnvironmentName]]
      in (statusRefreshResult (batch_DescribeComputeEnvironments conn cs1), cs1))"

text \<open>The same for \<open>resourceAwsBatchComputeEnvironmentDeleteRefreshFunc\<close>.\<close>

definition deleteRefreshResult ::
  "err + ComputeEnvironmentDetail list
     \<Rightarrow> ComputeEnvironmentDetail list option \<times> string \<times> err option" where
  "deleteRefreshResult response =
     (case response of
        Inl err \<Rightarrow> (None, ''failed'', Some err)
      | Inr [] \<Rightarrow> (Some [], CEStatusDeleted, None)
      | Inr (computeEnvironment # others) \<Rightarrow>
          (case ce_Status computeEnvironment of
             None \<Rightarrow> (None, [], Some (Panic ''nil pointer dereference''))
           | Some status \<Rightarrow> (Some (computeEnvironment # others), status, None)))"

definition resourceAwsBatchComputeEnvironmentDeleteRefreshFunc ::
  "string \<Rightarrow> batch_conn \<Rightarrow> api_call list
     \<Rightarrow> (ComputeEnvironmentDetail list option \<times> string \<times> err option) \<times> api_call list" where
  "resourceAwsBatchComputeEnvironmentDeleteRefreshFunc computeEnvironmentName conn cs =
     (let cs1 = cs @ [DescribeComputeEnvironments [computeEnvironmentName]]
      in (deleteRefreshResult (batch_DescribeComputeEnvironments conn cs1), cs1))"

definition flattenBatchComputeResources :: "AWSClient \<Rightarrow> ComputeResource \<Rightarrow> compute_resource list" where
  "flattenBatchComputeResources meta computeResource =
     [\<lparr> cr_allocation_strategy = aws_StringValue (CR_AllocationStrategy computeResource),
        cr_bid_percentage = aws_Int64Value (CR_BidPercentage computeResource),
        cr_desired_vcpus = aws_Int64Value (CR_DesiredvCpus computeResource),
        cr_ec2_key_pair = aws_StringValue (CR_Ec2KeyPair computeResource),
        cr_image_id = aws_StringValue (CR_ImageId computeResource),
        cr_instance_role = aws_StringValue (CR_InstanceRole computeResource),
        cr_instance_type = CR_InstanceTypes computeResource,
        cr_launch_template =
          (case CR_LaunchTemplate computeResource of None \<Rightarrow> [] | Some lt \<Rightarrow> [lt]),
        cr_max_vcpus = aws_Int64Value (CR_MaxvCpus computeResource),
        cr_min_vcpus = aws_Int64Value (CR_MinvCpus computeResource),
        cr_security_group_ids = CR_SecurityGroupIds computeResource,
        cr_spot_iam_fleet_role = aws_StringValue (CR_SpotIamFleetRole computeResource),
        cr_subnets = CR_Subnets computeResource,
        cr_tags = IgnoreAws meta (case CR_Tags computeResource of None \<Rightarrow> [] | Some t \<Rightarrow> t),
        cr_type = aws_StringValue (CR_Type computeResource) \<rparr>]"

definition resourceAwsBatchComputeEnvironmentRead ::
  "AWSClient \<Rightarrow> batch_compute_environment ResourceData \<Rightarrow> api_call list
     \<Rightarrow> err option \<times> batch_compute_environment ResourceData \<times> api_call list" where
  "resourceAwsBatchComputeEnvironmentRead meta d cs =
     (let computeEnvironmentName = bce_compute_environment_name (rd_cfg d);
          cs1 = cs @ [DescribeComputeEnvironments [computeEnvironmentName]]
      in case batch_DescribeComputeEnvironments (batchconn meta) cs1 of
           Inl err \<Rightarrow> (Some (ErrorfW ''error reading Batch Compute Environment: '' err), d, cs1)
         | Inr [] \<Rightarrow> (None, d\<lparr>rd_Id := []\<rparr>, cs1)
         | Inr (computeEnvironment # others) \<Rightarrow>
             (let tags = IgnoreConfig meta (IgnoreAws meta (ce_Tags computeEnvironment));
                  d1 = d\<lparr>rd_cfg := (rd_cfg d)
                         \<lparr> bce_service_role := aws_StringValue (ce_ServiceRole computeEnvironment),
                           bce_state := aws_StringValue (ce_State computeEnvironment),
                           bce_tags := RemoveDefaultConfig meta tags,
                           bce_tags_all := tags,
                           bce_type := aws_StringValue (ce_Type computeEnvironment) \<rparr>\<rparr>;
                  rest = (\<lambda>d2. (None,
                           d2\<lparr>rd_cfg := (rd_cfg d2)
                                \<lparr> bce_arn := aws_StringValue (ce_ComputeEnvironmentArn computeEnvironment),
                                  bce_ecs_cluster_arn := aws_StringValue (ce_EcsClusterArn computeEnvironment),
                                  bce_status := aws_StringValue (ce_Status computeEnvironment),
                                  bce_status_reason := aws_StringValue (ce_StatusReason computeEnvironment) \<rparr>\<rparr>,
                           cs1))
              in if aws_StringValue (ce_Type computeEnvironment) = CETypeManaged
                 then (case ce_ComputeResources computeEnvironment of
                         None \<Rightarrow> (Some (Panic ''nil pointer dereference''), d1, cs1)
                       | Some computeResource \<Rightarrow>
                           rest (d1\<lparr>rd_cfg := (rd_cfg d1)
                                     \<lparr> bce_compute_resources :=
                                         flattenBatchComputeResources meta computeResource \<rparr>\<rparr>))
                 else rest d1))"

text \<open>
  The compute resources of the create request, from an element of
  \<open>compute_resources\<close>.
\<close>

definition expandComputeResource :: "AWSClient \<Rightarrow> compute_resource \<Rightarrow> ComputeResource" where
  "expandComputeResource meta computeResource =
     \<lparr> CR_AllocationStrategy = Some (cr_allocation_strategy computeResource),
       CR_BidPercentage = Some (cr_bid_percentage computeResource),
       CR_DesiredvCpus =
         (if cr_desired_vcpus computeResource > 0 then Some (cr_desired_vcpus computeResource)
          else None),
       CR_Ec2KeyPair = Some (cr_ec2_key_pair computeResource),
       CR_ImageId = Some (cr_image_id computeResource),
       CR_InstanceRole = Some (cr_instance_role computeResource),
       CR_InstanceTypes = cr_instance_type computeResource,
       CR_LaunchTemplate =
         (case cr_launch_template computeResource of [] \<Rightarrow> None | lt # others \<Rightarrow> Some lt),
       CR_MaxvCpus = Some (cr_max_vcpus computeResource),
       CR_MinvCpus = Some (cr_min_vcpus computeResource),
       CR_SecurityGroupIds = cr_security_group_ids computeResource,
       CR_SpotIamFleetRole = Some (cr_spot_iam_fleet_role computeResource),
       CR_Subnets = cr_subnets computeResource,
       CR_Tags = Some (IgnoreAws meta (cr_tags computeResource)),
       CR_Type = Some (cr_type computeResource) \<rparr>"

text \<open>
  The name of the environment and the request \<open>input\<close> that
  \<open>resourceAwsBatchComputeEnvironmentCreate\<close> builds. The compute resources are put
  into the request for a managed environment, from the first element of the list.
\<close>

definition computeEnvironmentNameFor ::
  "AWSClient \<Rightarrow> batch_compute_environment ResourceData \<Rightarrow> string" where
  "computeEnvironmentNameFor meta d =
     (if bce_compute_environment_name (rd_cfg d) \<noteq> []
      then bce_compute_environment_name (rd_cfg d)
      else if bce_compute_environment_name_prefix (rd_cfg d) \<noteq> []
      then PrefixedUniqueId meta (bce_compute_environment_name_prefix (rd_cfg d))
      else UniqueId meta)"

definition createComputeEnvironmentInput ::
  "AWSClient \<Rightarrow> batch_compute_environment ResourceData \<Rightarrow> CreateComputeEnvironmentInput" where
  "createComputeEnvironmentInput meta d =
     (let tags = MergeTags meta (bce_tags (rd_cfg d))
      in \<lparr> cce_ComputeEnvironmentName = computeEnvironmentNameFor meta d,
           cce_ServiceRole = bce_service_role (rd_cfg d),
           cce_Type = bce_type (rd_cfg d),
           cce_State = (if bce_state (rd_cfg d) \<noteq> [] then Some (bce_state (rd_cfg d)) else None),
           cce_Tags = (if length tags > 0 then Some (IgnoreAws meta tags) else None),
           cce_ComputeResources =
             (if bce_type (rd_cfg d) = CETypeManaged
              then (case bce_compute_resources (rd_cfg d) of
                      [] \<Rightarrow> None
                    | computeResource # others \<Rightarrow> Some (expandComputeResource meta computeResource))
              else None) \<rparr>)"

definition resourceAwsBatchComputeEnvironmentCreate ::
  "AWSClient \<Rightarrow> batch_compute_environment ResourceData \<Rightarrow> api_call list
     \<Rightarrow> err option \<times> batch_compute_environment ResourceData \<times> api_call list" where
  "resourceAwsBatchComputeEnvironmentCreate meta d cs =
     (let conn = batchconn meta;
          computeEnvironmentName = computeEnvironmentNameFor meta d;
          d1 = d\<lparr>rd_cfg := (rd_cfg d)\<lparr>bce_compute_environment_name := computeEnvironmentName\<rparr>\<rparr>;
          computeEnvironmentType = bce_type (rd_cfg d1)
      in if computeEnvironmentType = CETypeManaged \<and> length (bce_compute_resources (rd_cfg d1)) = 0
         then (Some (Errorf ''One compute environment is expected, but no compute environments are set''),
               d1, cs)
         else
           (let input = createComputeEnvironmentInput meta d;
                cs1 = cs @ [CreateComputeEnvironment input]
            in case batch_CreateComputeEnvironment conn cs1 of
                 Some err \<Rightarrow> (Some err, d1, cs1)
               | None \<Rightarrow>
                   (let d2 = d1\<lparr>rd_Id := computeEnvironmentName\<rparr>;
                        stateConf =
                          \<lparr> Pending = [CEStatusCreating],
                            Target = [CEStatusValid],
                            Refresh = resourceAwsBatchComputeEnvironmentStatusRefreshFunc
                                        computeEnvironmentName conn,
                            Timeout = rd_Timeout d2 ''create'' \<rparr>
                    in case WaitForState stateConf cs1 of
                         (Inl err, cs2) \<Rightarrow> (Some err, d2, cs2)
                       | (Inr res, cs2) \<Rightarrow> resourceAwsBatchComputeEnvironmentRead meta d2 cs2)))"

definition deleteBatchComputeEnvironment ::
  "string \<Rightarrow> nat \<Rightarrow> batch_conn \<Rightarrow> api_call list \<Rightarrow> err option \<times> api_call list" where
  "deleteBatchComputeEnvironment computeEnvironment timeout conn cs =
     (let cs1 = cs @ [DeleteComputeEnvironment computeEnvironment]
      in case batch_DeleteComputeEnvironment conn cs1 of
           Some err \<Rightarrow> (Some err, cs1)
         | None \<Rightarrow>
             (let stateChangeConf =
                    \<lparr> Pending = [CEStatusDeleting],
                      Target = [CEStatusDeleted],
                      Refresh = resourceAwsBatchComputeEnvironmentDeleteRefreshFunc
                                  computeEnvironment conn,
                      Timeout = timeout \<rparr>
              in case WaitForState stateChangeConf cs1 of
                   (Inl err, cs2) \<Rightarrow> (Some err, cs2)
                 | (Inr res, cs2) \<Rightarrow> (None, cs2)))"

definition disableBatchComputeEnvironment ::
  "string \<Rightarrow> nat \<Rightarrow> batch_conn \<Rightarrow> api_call list \<Rightarrow> err option \<times> api_call list" where
  "disableBatchComputeEnvironment computeEnvironment timeout conn cs =
     (let cs1 = cs @ [UpdateComputeEnvironment computeEnvironment (Some CEStateDisabled)]
      in case batch_UpdateComputeEnvironment conn cs1 of
           Some err \<Rightarrow> (Some err, cs1)
         | None \<Rightarrow>
             (let stateChangeConf =
                    \<lparr> Pending = [CEStatusUpdating],
                      Target = [CEStatusValid],
                      Refresh = resourceAwsBatchComputeEnvironmentStatusRefreshFunc
                                  computeEnvironment conn,
                      Timeout = timeout \<rparr>
              in case WaitForState stateChangeConf cs1 of
                   (Inl err, cs2) \<Rightarrow> (Some err, cs2)
                 | (Inr res, cs2) \<Rightarrow> (None, cs2)))"

definition resourceAwsBatchComputeEnvironmentDelete ::
  "AWSClient \<Rightarrow> batch_compute_environment ResourceData \<Rightarrow> api_call list
     \<Rightarrow> err option \<times> batch_compute_environment ResourceData \<times> api_call list" where
  "resourceAwsBatchComputeEnvironmentDelete meta d cs =
     (let conn = batchconn meta;
          computeEnvironmentName = bce_compute_environment_name (rd_cfg d)
      in case disableBatchComputeEnvironment computeEnvironmentName (rd_Timeout d ''delete'') conn cs of
           (Some err, cs1) \<Rightarrow>
             (Some (ErrorfS ''error disabling Batch Compute Environment: '' err), d, cs1)
         | (None, cs1) \<Rightarrow>
             (case deleteBatchComputeEnvironment computeEnvironmentName (rd_Timeout d ''delete'') conn cs1 of
                (Some err, cs2) \<Rightarrow>
                  (Some (ErrorfS ''error deleting Batch Compute Environment: '' err), d, cs2)
              | (None, cs2) \<Rightarrow> (None, d, cs2)))"

section \<open>Retrying\<close>

datatype RetryError = RetryableError err | NonRetryableError err

text \<open>
  Modelled from the spec: \<open>resource.Retry\<close> belongs to the framework and
  \<open>tfresource.TimedOut\<close> to a package of the provider that is not among the sources.
  Sections 4.2 and 4.3: the attempt is repeated while it fails with a retryable error,
  bounded by a timeout; an error that is not retryable ends the retries with that
  error; when the time is used up the result is a timeout error, which \<open>TimedOut\<close>
  recognises.
\<close>

primrec Retry ::
  "nat \<Rightarrow> (api_call list \<Rightarrow> RetryError option \<times> api_call list) \<Rightarrow> api_call list
     \<Rightarrow> err option \<times> api_call list" where
  "Retry 0 f cs =
     (case f cs of
        (None, cs1) \<Rightarrow> (None, cs1)
      | (Some (NonRetryableError e), cs1) \<Rightarrow> (Some e, cs1)
      | (Some (RetryableError e), cs1) \<Rightarrow> (Some (TimeoutError ''retryableerror''), cs1))"
| "Retry (Suc n) f cs =
     (case f cs of
        (None, cs1) \<Rightarrow> (None, cs1)
      | (Some (NonRetryableError e), cs1) \<Rightarrow> (Some e, cs1)
      | (Some (RetryableError e), cs1) \<Rightarrow> Retry n f cs1)"

fun TimedOut :: "err option \<Rightarrow> bool" where
  "TimedOut (Some (TimeoutError s)) = True"
| "TimedOut e = False"

section \<open>Load balancer: the handlers\<close>

record subnet_mapping =
  smc_subnet_id :: string
  smc_outpost_id :: string
  smc_allocation_id :: string
  smc_private_ipv4_address :: string
  smc_ipv6_address :: string

record access_logs =
  al_bucket :: string
  al_enabled :: bool
  al_prefix :: string

text \<open>
  The sets of the schema (\<open>security_groups\<close>, \<open>subnets\<close>, \<open>subnet_mapping\<close>) are lists
  in the order \<open>Set.List()\<close> gives; two of them differ when they differ as sets. An
  element of \<open>access_logs\<close> may be nil.
\<close>

record load_balancer =
  lbc_name :: string
  lbc_name_prefix :: string
  lbc_load_balancer_type :: string
  lbc_tags :: tags
  lbc_internal :: bool
  lbc_security_groups :: "string list"
  lbc_subnets :: "string list"
  lbc_subnet_mapping :: "subnet_mapping list"
  lbc_ip_address_type :: string
  lbc_customer_owned_ipv4_pool :: string
  lbc_access_logs :: "access_logs option list"
  lbc_idle_timeout :: int
  lbc_enable_http2 :: bool
  lbc_drop_invalid_header_fields :: bool
  lbc_enable_cross_zone_load_balancing :: bool
  lbc_enable_deletion_protection :: bool
  lbc_arn :: string
  lbc_arn_suffix :: string
  lbc_vpc_id :: string
  lbc_zone_id :: string
  lbc_dns_name :: string

definition ErrCodeLoadBalancerNotFoundException :: string where
  "ErrCodeLoadBalancerNotFoundException = ''LoadBalancerNotFound''"

definition ErrCodeAccessPointNotFoundException :: string where
  "ErrCodeAccessPointNotFoundException = ''LoadBalancerNotFound''"

definition LoadBalancerTypeEnumApplication :: string where
  "LoadBalancerTypeEnumApplication = ''application''"
definition LoadBalancerTypeEnumGateway :: string where
  "LoadBalancerTypeEnumGateway = ''gateway''"
definition LoadBalancerTypeEnumNetwork :: string where
  "LoadBalancerTypeEnumNetwork = ''network''"

subsection \<open>Formatting and parsing of Go's standard library\<close>

definition FormatBool :: "bool \<Rightarrow> string" where
  "FormatBool b = (if b then ''true'' else ''false'')"

function natString :: "nat \<Rightarrow> string" where
  "natString n =
     (if n < 10 then [char_of (48 + n)]
      else natString (n div 10) @ [char_of (48 + n mod 10)])"
  by pat_completeness auto
termination
  by (relation "measure (\<lambda>n. n)") auto

text \<open>\<open>fmt.Sprintf("%d", n)\<close>.\<close>

definition Itoa :: "int \<Rightarrow> string" where
  "Itoa n = (if n < 0 then CHR ''-'' # natString (nat (- n)) else natString (nat n))"

fun parseDigits :: "string \<Rightarrow> nat \<Rightarrow> nat option" where
  "parseDigits [] acc = Some acc"
| "parseDigits (c # cs) acc =
     (if (48::nat) \<le> of_char c \<and> (of_char c :: nat) \<le> 57
      then parseDigits cs (10 * acc + (of_char c - 48))
      else None)"

text \<open>
  \<open>strconv.Atoi\<close>: an optional sign and at least one decimal digit, the value within
  the range of a 64-bit \<open>int\<close>.
\<close>

definition Atoi :: "string \<Rightarrow> int option" where
  "Atoi s =
     (let (neg, ds) = (case s of
                          c # cs \<Rightarrow> (if c = CHR ''-'' then (True, cs)
                                     else if c = CHR ''+'' then (False, cs)
                                     else (False, s))
                        | [] \<Rightarrow> (False, []))
      in if ds = [] then None
         else (case parseDigits ds 0 of
                 None \<Rightarrow> None
               | Some n \<Rightarrow>
                   (let v = (if neg then - int n else int n)
                    in if - (2 ^ 63) \<le> v \<and> v < 2 ^ 63 then Some v else None)))"

subsection \<open>The two regular expressions\<close>

text \<open>
  \<open>getLbNameFromArn\<close> matches \<open>([^/]+/[^/]+/[^/]+)$\<close>: the text must end in three
  parts that are not empty, separated by slashes, and the match is these three parts
  (the first as far to the left as it has no slash).
\<close>

definition getLbNameFromArn :: "string \<Rightarrow> err + string" where
  "getLbNameFromArn arn =
     (let parts = strings_Split (CHR ''/'') arn;
          n = length parts;
          last3 = drop (n - 3) parts
      in if n \<ge> 3 \<and> list_all (\<lambda>p. p \<noteq> []) last3
         then Inr (strings_Join (CHR ''/'') last3)
         else Inl (Errorf ''unexpected ARN format''))"

text \<open>The text after the first, and after the last, occurrence of a pattern.\<close>

fun afterFirst :: "string \<Rightarrow> string \<Rightarrow> string option" where
  "afterFirst p [] = (if p = [] then Some [] else None)"
| "afterFirst p (c # cs) =
     (if prefix p (c # cs) then Some (drop (length p) (c # cs)) else afterFirst p cs)"

fun afterLast :: "string \<Rightarrow> string \<Rightarrow> string option" where
  "afterLast p [] = (if p = [] then Some [] else None)"
| "afterLast p (c # cs) =
     (case afterLast p cs of
        Some r \<Rightarrow> Some r
      | None \<Rightarrow> (if prefix p (c # cs) then Some (drop (length p) (c # cs)) else None))"

text \<open>
  \<open>lbSuffixFromARN\<close> matches \<open>arn:.*:loadbalancer/(.*)\<close> as often as it can; the dot
  does not match a line feed, so a match lies within a line and reaches its end, and
  its group is what follows the last \<open>:loadbalancer/\<close> of the line.
\<close>

definition lbSuffixMatch :: "string \<Rightarrow> string option" where
  "lbSuffixMatch line =
     (case afterFirst ''arn:'' line of
        None \<Rightarrow> None
      | Some r \<Rightarrow> afterLast '':loadbalancer/'' r)"

definition lbSuffixFromARN :: "string option \<Rightarrow> string" where
  "lbSuffixFromARN arn =
     (case arn of
        None \<Rightarrow> []
      | Some a \<Rightarrow>
          (let arnComponents =
                 concat (map (\<lambda>line. case lbSuffixMatch line of None \<Rightarrow> [] | Some g \<Rightarrow> [g])
                           (strings_Split (char_of (10::nat)) a))
           in if length arnComponents = 1 then hd arnComponents else []))"

subsection \<open>Read\<close>

definition flattenSubnetsFromAvailabilityZones :: "AvailabilityZone list \<Rightarrow> string list" where
  "flattenSubnetsFromAvailabilityZones availabilityZones =
     map (\<lambda>az. aws_StringValue (az_SubnetId az)) availabilityZones"

definition flattenSubnetMappingsFromAvailabilityZones ::
  "AvailabilityZone list \<Rightarrow> subnet_mapping list" where
  "flattenSubnetMappingsFromAvailabilityZones availabilityZones =
     map (\<lambda>availabilityZone.
            fold (\<lambda>loadBalancerAddress m.
                    m\<lparr> smc_allocation_id := aws_StringValue (lba_AllocationId loadBalancerAddress),
                       smc_private_ipv4_address :=
                         aws_StringValue (lba_PrivateIPv4Address loadBalancerAddress),
                       smc_ipv6_address := aws_StringValue (lba_IPv6Address loadBalancerAddress) \<rparr>)
              (az_LoadBalancerAddresses availabilityZone)
              \<lparr> smc_subnet_id = aws_StringValue (az_SubnetId availabilityZone),
                smc_outpost_id = aws_StringValue (az_OutpostId availabilityZone),
                smc_allocation_id = [],
                smc_private_ipv4_address = [],
                smc_ipv6_address = [] \<rparr>)
       availabilityZones"

text \<open>
  The loop of \<open>flattenAwsLbResource\<close> over the attributes of the load balancer: the
  access-log map and the resource data so far, or the error of the timeout that does
  not parse.
\<close>

fun flattenAttributes ::
  "LoadBalancerAttribute list \<Rightarrow> access_logs \<Rightarrow> load_balancer ResourceData
     \<Rightarrow> err + access_logs \<times> load_balancer ResourceData" where
  "flattenAttributes [] accessLogMap d = Inr (accessLogMap, d)"
| "flattenAttributes ((key, val) # attrs) accessLogMap d =
     (if key = ''access_logs.s3.enabled''
      then flattenAttributes attrs (accessLogMap\<lparr>al_enabled := (val = ''true'')\<rparr>) d
      else if key = ''access_logs.s3.bucket''
      then flattenAttributes attrs (accessLogMap\<lparr>al_bucket := val\<rparr>) d
      else if key = ''access_logs.s3.prefix''
      then flattenAttributes attrs (accessLogMap\<lparr>al_prefix := val\<rparr>) d
      else if key = ''idle_timeout.timeout_seconds''
      then (case Atoi val of
              None \<Rightarrow> Inl (ErrorfW ''error parsing ALB timeout: '' (Errorf ''strconv.Atoi: invalid syntax''))
            | Some timeout \<Rightarrow>
                flattenAttributes attrs accessLogMap
                  (d\<lparr>rd_cfg := (rd_cfg d)\<lparr>lbc_idle_timeout := timeout\<rparr>\<rparr>))
      else if key = ''routing.http.drop_invalid_header_fields.enabled''
      then flattenAttributes attrs accessLogMap
             (d\<lparr>rd_cfg := (rd_cfg d)\<lparr>lbc_drop_invalid_header_fields := (val = ''true'')\<rparr>\<rparr>)
      else if key = ''deletion_protection.enabled''
      then flattenAttributes attrs accessLogMap
             (d\<lparr>rd_cfg := (rd_cfg d)\<lparr>lbc_enable_deletion_protection := (val = ''true'')\<rparr>\<rparr>)
      else if key = ''routing.http2.enabled''
      then flattenAttributes attrs accessLogMap
             (d\<lparr>rd_cfg := (rd_cfg d)\<lparr>lbc_enable_http2 := (val = ''true'')\<rparr>\<rparr>)
      else if key = ''load_balancing.cross_zone.enabled''
      then flattenAttributes attrs accessLogMap
             (d\<lparr>rd_cfg := (rd_cfg d)\<lparr>lbc_enable_cross_zone_load_balancing := (val = ''true'')\<rparr>\<rparr>)
      else flattenAttributes attrs accessLogMap d)"

definition flattenAwsLbResource ::
  "AWSClient \<Rightarrow> load_balancer ResourceData \<Rightarrow> LoadBalancer \<Rightarrow> api_call list
     \<Rightarrow> err option \<times> load_balancer ResourceData \<times> api_call list" where
  "flattenAwsLbResource meta d lb cs =
     (let conn = elbv2conn meta;
          d1 = d\<lparr>rd_cfg := (rd_cfg d)
                 \<lparr> lbc_arn := aws_StringValue (lb_LoadBalancerArn lb),
                   lbc_arn_suffix := lbSuffixFromARN (lb_LoadBalancerArn lb),
                   lbc_name := aws_StringValue (lb_LoadBalancerName lb),
                   lbc_internal := (lb_Scheme lb \<noteq> None \<and> aws_StringValue (lb_Scheme lb) = ''internal''),
                   lbc_security_groups := lb_SecurityGroups lb,
                   lbc_vpc_id := aws_StringValue (lb_VpcId lb),
                   lbc_zone_id := aws_StringValue (lb_CanonicalHostedZoneId lb),
                   lbc_dns_name := aws_StringValue (lb_DNSName lb),
                   lbc_ip_address_type := aws_StringValue (lb_IpAddressType lb),
                   lbc_load_balancer_type := aws_StringValue (lb_Type lb),
                   lbc_customer_owned_ipv4_pool := aws_StringValue (lb_CustomerOwnedIpv4Pool lb),
                   lbc_subnets := flattenSubnetsFromAvailabilityZones (lb_AvailabilityZones lb),
                   lbc_subnet_mapping :=
                     flattenSubnetMappingsFromAvailabilityZones (lb_AvailabilityZones lb) \<rparr>\<rparr>;
          cs1 = cs @ [Elbv2ListTags (rd_Id d1)]
      in case elbv2_ListTags conn cs1 of
           Inl err \<Rightarrow> (Some (ErrorfW ''error listing tags: '' err), d1, cs1)
         | Inr tags \<Rightarrow>
             (let d2 = d1\<lparr>rd_cfg := (rd_cfg d1)
                          \<lparr>lbc_tags := IgnoreConfig meta (IgnoreAws meta tags)\<rparr>\<rparr>;
                  cs2 = cs1 @ [DescribeLoadBalancerAttributes (rd_Id d2)]
              in case elbv2_DescribeLoadBalancerAttributes conn cs2 of
                   Inl err \<Rightarrow> (Some (ErrorfW ''error retrieving LB Attributes: '' err), d2, cs2)
                 | Inr attributes \<Rightarrow>
                     (case flattenAttributes attributes
                             \<lparr>al_bucket = [], al_enabled = False, al_prefix = []\<rparr> d2 of
                        Inl err \<Rightarrow> (Some err, d2, cs2)
                      | Inr (accessLogMap, d3) \<Rightarrow>
                          (None,
                           d3\<lparr>rd_cfg := (rd_cfg d3)\<lparr>lbc_access_logs := [Some accessLogMap]\<rparr>\<rparr>,
                           cs2))))"

definition resourceAwsLbRead ::
  "AWSClient \<Rightarrow> load_balancer ResourceData \<Rightarrow> api_call list
     \<Rightarrow> err option \<times> load_balancer ResourceData \<times> api_call list" where
  "resourceAwsLbRead meta d cs =
     (let cs1 = cs @ [FinderLoadBalancerByARN (rd_Id d)]
      in case elbv2_finder_LoadBalancerByARN (elbv2conn meta) cs1 of
           Inl err \<Rightarrow>
             (if \<not> rd_IsNewResource d \<and> isAWSErr err ErrCodeAccessPointNotFoundException
              then (None, d\<lparr>rd_Id := []\<rparr>, cs1)
              else (Some (ErrorfW ''error retrieving ALB: '' err), d, cs1))
         | Inr None \<Rightarrow>
             (if rd_IsNewResource d
              then (Some (Errorf ''error retrieving ALB: empty output after creation''), d, cs1)
              else (None, d\<lparr>rd_Id := []\<rparr>, cs1))
         | Inr (Some lb) \<Rightarrow> flattenAwsLbResource meta d lb cs1)"

subsection \<open>Update and Create\<close>

text \<open>One attempt of the retried tag update of \<open>resourceAwsLbUpdate\<close>.\<close>

definition updateTagsAttempt ::
  "AWSClient \<Rightarrow> load_balancer ResourceData \<Rightarrow> api_call list
     \<Rightarrow> RetryError option \<times> api_call list" where
  "updateTagsAttempt meta d cs =
     (let cs1 = cs @ [Elbv2UpdateTags (rd_Id d) (lbc_tags (rd_state d)) (lbc_tags (rd_cfg d))]
      in case elbv2_UpdateTags (elbv2conn meta) cs1 of
           None \<Rightarrow> (None, cs1)
         | Some err \<Rightarrow>
             (if isAWSErr err ErrCodeLoadBalancerNotFoundException
              then (Some (RetryableError err), cs1)
              else (Some (NonRetryableError err), cs1)))"

text \<open>The attributes collected by \<open>resourceAwsLbUpdate\<close>, in the order appended.\<close>

definition lbAttributes :: "load_balancer ResourceData \<Rightarrow> LoadBalancerAttribute list" where
  "lbAttributes d =
     (let old = rd_state d; cur = rd_cfg d; isNew = rd_IsNewResource d;
          logs = lbc_access_logs cur
      in (if lbc_access_logs old \<noteq> lbc_access_logs cur
          then (case (if length logs = 1 then hd logs else None) of
                  Some log \<Rightarrow>
                    (''access_logs.s3.enabled'', FormatBool (al_enabled log)) #
                    (if al_enabled log
                     then [(''access_logs.s3.bucket'', al_bucket log),
                           (''access_logs.s3.prefix'', al_prefix log)]
                     else [])
                | None \<Rightarrow> [(''access_logs.s3.enabled'', ''false'')])
          else [])
         @ (if lbc_load_balancer_type cur = LoadBalancerTypeEnumApplication
            then (if lbc_idle_timeout old \<noteq> lbc_idle_timeout cur \<or> isNew
                  then [(''idle_timeout.timeout_seconds'', Itoa (lbc_idle_timeout cur))]
                  else [])
                 @ (if lbc_enable_http2 old \<noteq> lbc_enable_http2 cur \<or> isNew
                    then [(''routing.http2.enabled'', FormatBool (lbc_enable_http2 cur))]
                    else [])
                 @ (if lbc_drop_invalid_header_fields old \<noteq> lbc_drop_invalid_header_fields cur
                       \<or> isNew
                    then [(''routing.http.drop_invalid_header_fields.enabled'',
                           FormatBool (lbc_drop_invalid_header_fields cur))]
                    else [])
            else if lbc_load_balancer_type cur = LoadBalancerTypeEnumGateway
                    \<or> lbc_load_balancer_type cur = LoadBalancerTypeEnumNetwork
            then (if lbc_enable_cross_zone_load_balancing old
                       \<noteq> lbc_enable_cross_zone_load_balancing cur \<or> isNew
                  then [(''load_balancing.cross_zone.enabled'',
                         FormatBool (lbc_enable_cross_zone_load_balancing cur))]
                  else [])
            else [])
         @ (if lbc_enable_deletion_protection old \<noteq> lbc_enable_deletion_protection cur \<or> isNew
            then [(''deletion_protection.enabled'',
                   FormatBool (lbc_enable_deletion_protection cur))]
            else []))"

text \<open>
  A request of \<open>resourceAwsLbUpdate\<close> that is sent only under a condition; its error is
  wrapped with the text given.
\<close>

definition callWhen ::
  "bool \<Rightarrow> api_call \<Rightarrow> (api_call list \<Rightarrow> err option) \<Rightarrow> string \<Rightarrow> api_call list
     \<Rightarrow> err option \<times> api_call list" where
  "callWhen cond request api txt cs =
     (if cond
      then (case api (cs @ [request]) of
              Some err \<Rightarrow> (Some (ErrorfW txt err), cs @ [request])
            | None \<Rightarrow> (None, cs @ [request]))
      else (None, cs))"

definition resourceAwsLbUpdate ::
  "AWSClient \<Rightarrow> load_balancer ResourceData \<Rightarrow> api_call list
     \<Rightarrow> err option \<times> load_balancer ResourceData \<times> api_call list" where
  "resourceAwsLbUpdate meta d cs =
     (let conn = elbv2conn meta;
          old = rd_state d; cur = rd_cfg d
      in case (if lbc_tags old \<noteq> lbc_tags cur
               then (case Retry (LoadBalancerTagPropagationTimeout meta) (updateTagsAttempt meta d) cs of
                       (err, cs1) \<Rightarrow>
                         (case (if TimedOut err
                                then (case updateTagsAttempt meta d cs1 of
                                        (None, cs2) \<Rightarrow> (None, cs2)
                                      | (Some (RetryableError e), cs2) \<Rightarrow> (Some e, cs2)
                                      | (Some (NonRetryableError e), cs2) \<Rightarrow> (Some e, cs2))
                                else (err, cs1)) of
                            (Some e, cs2) \<Rightarrow> (Some (ErrorfW ''error updating LB tags: '' e), cs2)
                          | (None, cs2) \<Rightarrow> (None, cs2)))
               else (None, cs)) of
           (Some err, cs1) \<Rightarrow> (Some err, d, cs1)
         | (None, cs1) \<Rightarrow>
        (case callWhen (length (lbAttributes d) \<noteq> 0)
                (ModifyLoadBalancerAttributes (rd_Id d) (lbAttributes d))
                (elbv2_ModifyLoadBalancerAttributes conn)
                ''failure configuring LB attributes: '' cs1 of
           (Some err, cs2) \<Rightarrow> (Some err, d, cs2)
         | (None, cs2) \<Rightarrow>
        (case callWhen (set (lbc_security_groups old) \<noteq> set (lbc_security_groups cur))
                (SetSecurityGroups (rd_Id d) (lbc_security_groups cur))
                (elbv2_SetSecurityGroups conn)
                ''failure Setting LB Security Groups: '' cs2 of
           (Some err, cs3) \<Rightarrow> (Some err, d, cs3)
         | (None, cs3) \<Rightarrow>
        (case callWhen (set (lbc_subnets old) \<noteq> set (lbc_subnets cur) \<and> \<not> rd_IsNewResource d)
                (SetSubnets (rd_Id d) (lbc_subnets cur))
                (elbv2_SetSubnets conn)
                ''failure Setting LB Subnets: '' cs3 of
           (Some err, cs4) \<Rightarrow> (Some err, d, cs4)
         | (None, cs4) \<Rightarrow>
        (case callWhen (lbc_ip_address_type old \<noteq> lbc_ip_address_type cur)
                (SetIpAddressType (rd_Id d) (lbc_ip_address_type cur))
                (elbv2_SetIpAddressType conn)
                ''failure Setting LB IP Address Type: '' cs4 of
           (Some err, cs5) \<Rightarrow> (Some err, d, cs5)
         | (None, cs5) \<Rightarrow>
        (case callWhen True
                (WaiterLoadBalancerActive (rd_Id d))
                (elbv2_waiter_LoadBalancerActive conn)
                ''error waiting for Load Balancer to be active: '' cs5 of
           (Some err, cs6) \<Rightarrow> (Some err, d, cs6)
         | (None, cs6) \<Rightarrow> resourceAwsLbRead meta d cs6))))))"

definition expandSubnetMapping :: "subnet_mapping \<Rightarrow> SubnetMapping" where
  "expandSubnetMapping subnetMap =
     \<lparr> sm_SubnetId = smc_subnet_id subnetMap,
       sm_AllocationId =
         (if smc_allocation_id subnetMap \<noteq> [] then Some (smc_allocation_id subnetMap) else None),
       sm_PrivateIPv4Address =
         (if smc_private_ipv4_address subnetMap \<noteq> []
          then Some (smc_private_ipv4_address subnetMap) else None),
       sm_IPv6Address =
         (if smc_ipv6_address subnetMap \<noteq> [] then Some (smc_ipv6_address subnetMap) else None) \<rparr>"

text \<open>The name and the request \<open>elbOpts\<close> that \<open>resourceAwsLbCreate\<close> builds.\<close>

definition loadBalancerNameFor :: "AWSClient \<Rightarrow> load_balancer ResourceData \<Rightarrow> string" where
  "loadBalancerNameFor meta d =
     (if lbc_name (rd_cfg d) \<noteq> [] then lbc_name (rd_cfg d)
      else if lbc_name_prefix (rd_cfg d) \<noteq> []
      then PrefixedUniqueId meta (lbc_name_prefix (rd_cfg d))
      else PrefixedUniqueId meta ''tf-lb-'')"

definition createLoadBalancerInput ::
  "AWSClient \<Rightarrow> load_balancer ResourceData \<Rightarrow> CreateLoadBalancerInput" where
  "createLoadBalancerInput meta d =
     (let tags = IgnoreAws meta (lbc_tags (rd_cfg d));
          cur = rd_cfg d
      in \<lparr> clb_Name = loadBalancerNameFor meta d,
           clb_Type = lbc_load_balancer_type cur,
           clb_Tags = (if length tags > 0 then Some tags else None),
           clb_Scheme = (if lbc_internal cur then Some ''internal'' else None),
           clb_SecurityGroups =
             (if lbc_security_groups cur \<noteq> [] then Some (lbc_security_groups cur) else None),
           clb_Subnets = (if lbc_subnets cur \<noteq> [] then Some (lbc_subnets cur) else None),
           clb_SubnetMappings =
             (if lbc_subnet_mapping cur \<noteq> []
              then Some (map expandSubnetMapping (lbc_subnet_mapping cur)) else None),
           clb_IpAddressType =
             (if lbc_ip_address_type cur \<noteq> [] then Some (lbc_ip_address_type cur) else None),
           clb_CustomerOwnedIpv4Pool =
             (if lbc_customer_owned_ipv4_pool cur \<noteq> []
              then Some (lbc_customer_owned_ipv4_pool cur) else None) \<rparr>)"

definition resourceAwsLbCreate ::
  "AWSClient \<Rightarrow> load_balancer ResourceData \<Rightarrow> api_call list
     \<Rightarrow> err option \<times> load_balancer ResourceData \<times> api_call list" where
  "resourceAwsLbCreate meta d cs =
     (let conn = elbv2conn meta;
          name = loadBalancerNameFor meta d;
          d1 = d\<lparr>rd_cfg := (rd_cfg d)\<lparr>lbc_name := name\<rparr>\<rparr>;
          elbOpts = createLoadBalancerInput meta d;
          cs1 = cs @ [CreateLoadBalancer elbOpts]
      in case elbv2_CreateLoadBalancer conn cs1 of
           Inl err \<Rightarrow> (Some (ErrorfW ''error creating Load Balancer: '' err), d1, cs1)
         | Inr LoadBalancers \<Rightarrow>
             (if length LoadBalancers \<noteq> 1
              then (Some (Errorf ''no load balancers returned following creation''), d1, cs1)
              else
                (let lb = hd LoadBalancers;
                     d2 = d1\<lparr>rd_Id := aws_StringValue (lb_LoadBalancerArn lb)\<rparr>;
                     cs2 = cs1 @ [WaiterLoadBalancerActive (aws_StringValue (lb_LoadBalancerArn lb))]
                 in case elbv2_waiter_LoadBalancerActive conn cs2 of
                      Some err \<Rightarrow>
                        (Some (ErrorfW ''error waiting for Load Balancer to be active: '' err), d2, cs2)
                    | None \<Rightarrow> resourceAwsLbUpdate meta d2 cs2)))"

subsection \<open>Delete and the network interfaces\<close>

definition cleanupLBNetworkInterfaces ::
  "ec2_conn \<Rightarrow> string \<Rightarrow> api_call list \<Rightarrow> err option \<times> api_call list" where
  "cleanupLBNetworkInterfaces conn lbArn cs =
     (case getLbNameFromArn lbArn of
        Inl err \<Rightarrow> (Some err, cs)
      | Inr name \<Rightarrow>
          (let cs1 = cs @ [DescribeNetworkInterfaces
                             [(''attachment.instance-owner-id'', [''amazon-elb'']),
                              (''description'', [''ELB '' @ name])]]
           in case ec2_DescribeNetworkInterfaces conn cs1 of
                Inl err \<Rightarrow> (Some err, cs1)
              | Inr NetworkInterfaces \<Rightarrow>
                  (if length NetworkInterfaces = 0 then (None, cs1)
                   else
                     (let cs2 = cs1 @ [DetachNetworkInterfaces NetworkInterfaces]
                      in case ec2_detachNetworkInterfaces conn cs2 of
                           Some err \<Rightarrow> (Some err, cs2)
                         | None \<Rightarrow>
                             (let cs3 = cs2 @ [DeleteNetworkInterfaces NetworkInterfaces]
                              in (ec2_deleteNetworkInterfaces conn cs3, cs3))))))"

text \<open>One attempt of the retried describe of \<open>waitForNLBNetworkInterfacesToDetach\<close>.\<close>

definition detachAttempt ::
  "ec2_conn \<Rightarrow> Filter list \<Rightarrow> api_call list \<Rightarrow> RetryError option \<times> api_call list" where
  "detachAttempt conn input cs =
     (let cs1 = cs @ [DescribeNetworkInterfaces input]
      in case ec2_DescribeNetworkInterfaces conn cs1 of
           Inl err \<Rightarrow> (Some (NonRetryableError err), cs1)
         | Inr NetworkInterfaces \<Rightarrow>
             (if length NetworkInterfaces > 0
              then (Some (RetryableError (Errorf ''waiting for ENIs to clean up'')), cs1)
              else (None, cs1)))"

definition waitForNLBNetworkInterfacesToDetach ::
  "AWSClient \<Rightarrow> ec2_conn \<Rightarrow> string \<Rightarrow> api_call list \<Rightarrow> err option \<times> api_call list" where
  "waitForNLBNetworkInterfacesToDetach meta conn lbArn cs =
     (case getLbNameFromArn lbArn of
        Inl err \<Rightarrow> (Some err, cs)
      | Inr name \<Rightarrow>
          (let input = [(''attachment.instance-owner-id'', [''amazon-aws'']),
                        (''attachment.attachment-id'', [''ela-attach-*'']),
                        (''description'', [''ELB '' @ name])]
           in case Retry (LoadBalancerNetworkInterfaceDetachTimeout meta) (detachAttempt conn input) cs of
                (err, cs1) \<Rightarrow>
                  (if TimedOut err
                   then
                     (let cs2 = cs1 @ [DescribeNetworkInterfaces input]
                      in case ec2_DescribeNetworkInterfaces conn cs2 of
                           Inl e \<Rightarrow> (Some (ErrorfW ''error describing network inferfaces: '' e), cs2)
                         | Inr NetworkInterfaces \<Rightarrow>
                             (if length NetworkInterfaces > 0
                              then (Some (Errorf ''error waiting for ENIs to clean up''), cs2)
                              else (None, cs2)))
                   else (case err of
                           Some e \<Rightarrow> (Some (ErrorfW ''error describing network inferfaces: '' e), cs1)
                         | None \<Rightarrow> (None, cs1)))))"

text \<open>
  Delete. The two results of the clean-up are only logged (\<open>log.Printf\<close> of a warning);
  the requests they sent stay in the log.
\<close>

definition resourceAwsLbDelete ::
  "AWSClient \<Rightarrow> load_balancer ResourceData \<Rightarrow> api_call list
     \<Rightarrow> err option \<times> load_balancer ResourceData \<times> api_call list" where
  "resourceAwsLbDelete meta d cs =
     (let cs1 = cs @ [DeleteLoadBalancer (rd_Id d)]
      in case elbv2_DeleteLoadBalancer (elbv2conn meta) cs1 of
           Some err \<Rightarrow> (Some (ErrorfW ''error deleting LB: '' err), d, cs1)
         | None \<Rightarrow>
             (case cleanupLBNetworkInterfaces (ec2conn meta) (rd_Id d) cs1 of
                (err1, cs2) \<Rightarrow>
                  (case waitForNLBNetworkInterfacesToDetach meta (ec2conn meta) (rd_Id d) cs2 of
                     (err2, cs3) \<Rightarrow> (None, d, cs3))))"

section \<open>Example environments\<close>

text \<open>An SSM endpoint that accepts every request and knows no document.\<close>

definition quietSsm :: ssm_conn where
  "quietSsm =
     \<lparr> ssm_CreateDocument = (\<lambda>cs. Inl (AWSError ''InternalServerError'' ''try later'')),
       ssm_DescribeDocument = (\<lambda>cs. Inl (AWSError ''InvalidDocument'' ''no such document'')),
       ssm_GetDocument = (\<lambda>cs. Inr None),
       ssm_DescribeDocumentPermission = (\<lambda>cs. Inr []),
       ssm_ModifyDocumentPermission = (\<lambda>cs. None),
       ssm_DeleteDocument = (\<lambda>cs. None),
       ssm_waiter_DocumentActive = (\<lambda>cs. None),
       ssm_waiter_DocumentDeleted = (\<lambda>cs. Some (AWSError ''InvalidDocument'' ''no such document'')) \<rparr>"

definition quietBatch :: batch_conn where
  "quietBatch =
     \<lparr> batch_CreateComputeEnvironment = (\<lambda>cs. None),
       batch_DescribeComputeEnvironments = (\<lambda>cs. Inr []),
       batch_UpdateComputeEnvironment = (\<lambda>cs. None),
       batch_DeleteComputeEnvironment = (\<lambda>cs. None) \<rparr>"

definition quietElbv2 :: elbv2_conn where
  "quietElbv2 =
     \<lparr> elbv2_CreateLoadBalancer = (\<lambda>cs. Inr []),
       elbv2_DeleteLoadBalancer = (\<lambda>cs. None),
       elbv2_UpdateTags = (\<lambda>cs. None),
       elbv2_ModifyLoadBalancerAttributes = (\<lambda>cs. None),
       elbv2_SetSecurityGroups = (\<lambda>cs. None),
       elbv2_SetSubnets = (\<lambda>cs. None),
       elbv2_SetIpAddressType = (\<lambda>cs. None),
       elbv2_waiter_LoadBalancerActive = (\<lambda>cs. None),
       elbv2_finder_LoadBalancerByARN = (\<lambda>cs. Inr None),
       elbv2_ListTags = (\<lambda>cs. Inr []),
       elbv2_DescribeLoadBalancerAttributes = (\<lambda>cs. Inr []) \<rparr>"

definition quietEc2 :: ec2_conn where
  "quietEc2 =
     \<lparr> ec2_DescribeNetworkInterfaces = (\<lambda>cs. Inr []),
       ec2_detachNetworkInterfaces = (\<lambda>cs. None),
       ec2_deleteNetworkInterfaces = (\<lambda>cs. None) \<rparr>"

definition quietClient :: AWSClient where
  "quietClient =
     \<lparr> ssmconn = quietSsm, batchconn = quietBatch, elbv2conn = quietElbv2, ec2conn = quietEc2,
       client_partition = ''aws'', client_region = ''us-east-1'',
       client_accountid = ''123456789012'',
       MergeTags = (\<lambda>t. t), IgnoreAws = (\<lambda>t. t), IgnoreConfig = (\<lambda>t. t),
       RemoveDefaultConfig = (\<lambda>t. t),
       UniqueId = ''terraform-20210101000000000000000001'',
       PrefixedUniqueId = (\<lambda>prefix. prefix @ ''20210101000000000000000001''),
       LoadBalancerTagPropagationTimeout = 2,
       LoadBalancerNetworkInterfaceDetachTimeout = 2 \<rparr>"

text \<open>An SSM document as configured, before anything is known of it in the cloud.\<close>

definition newDocument :: "(string \<rightharpoonup> iface) \<Rightarrow> ssm_document" where
  "newDocument perms =
     \<lparr> sd_name = ''doc'', sd_content = ''{}'', sd_document_format = ''JSON'',
       sd_document_type = ''Command'', sd_target_type = [], sd_version_name = [],
       sd_attachments_source = [], sd_tags = [], sd_tags_all = [],
       sd_permissions = perms, sd_arn = [], sd_status = [], sd_created_date = [],
       sd_default_version = [], sd_description = [], sd_schema_version = [],
       sd_document_version = [], sd_hash = [], sd_hash_type = [], sd_latest_version = [],
       sd_owner = [], sd_platform_types = [], sd_parameter = [] \<rparr>"

definition documentData ::
  "string \<Rightarrow> (string \<rightharpoonup> iface) \<Rightarrow> (string \<rightharpoonup> iface) \<Rightarrow> ssm_document ResourceData" where
  "documentData ident oldPerms perms =
     \<lparr> rd_Id = ident, rd_IsNewResource = (ident = []),
       rd_state = newDocument oldPerms, rd_cfg = newDocument perms,
       rd_Timeout = (\<lambda>k. 3) \<rparr>"


text \<open>A cloud in which every create request is refused.\<close>

definition refusal :: err where
  "refusal = AWSError ''AccessDeniedException'' ''not authorized''"

definition refusingClient :: AWSClient where
  "refusingClient =
     quietClient
       \<lparr> ssmconn := quietSsm\<lparr>ssm_CreateDocument := (\<lambda>cs. Inl refusal)\<rparr>,
         batchconn := quietBatch\<lparr>batch_CreateComputeEnvironment := (\<lambda>cs. Some refusal)\<rparr>,
         elbv2conn := quietElbv2\<lparr>elbv2_CreateLoadBalancer := (\<lambda>cs. Inl refusal)\<rparr> \<rparr>"

text \<open>
  A Batch endpoint with one environment \<open>ce\<close>: valid until its deletion is requested,
  then deleting for two describe calls, then gone.
\<close>

definition environmentWithStatus :: "string \<Rightarrow> ComputeEnvironmentDetail" where
  "environmentWithStatus status =
     \<lparr> ce_ComputeEnvironmentArn = Some ''arn:aws:batch:us-east-1:123456789012:compute-environment/ce'',
       ce_ComputeResources = None,
       ce_EcsClusterArn = None,
       ce_ServiceRole = Some ''role'',
       ce_State = Some ''ENABLED'',
       ce_Status = Some status,
       ce_StatusReason = None,
       ce_Tags = [],
       ce_Type = Some ''UNMANAGED'' \<rparr>"

definition lifecycleBatch :: batch_conn where
  "lifecycleBatch =
     \<lparr> batch_CreateComputeEnvironment = (\<lambda>cs. None),
       batch_DescribeComputeEnvironments =
         (\<lambda>cs. case dropWhile (\<lambda>c. c \<noteq> DeleteComputeEnvironment ''ce'') cs of
                  [] \<Rightarrow> Inr [environmentWithStatus ''VALID'']
                | deletion # later \<Rightarrow>
                    (if length later \<le> 2 then Inr [environmentWithStatus ''DELETING'']
                     else Inr [])),
       batch_UpdateComputeEnvironment = (\<lambda>cs. None),
       batch_DeleteComputeEnvironment = (\<lambda>cs. None) \<rparr>"

definition unmanagedEnvironment :: "string \<Rightarrow> batch_compute_environment ResourceData" where
  "unmanagedEnvironment ident =
     \<lparr> rd_Id = ident, rd_IsNewResource = (ident = []),
       rd_state = \<lparr> bce_compute_environment_name = ident,
                    bce_compute_environment_name_prefix = [],
                    bce_compute_resources = [], bce_service_role = ''role'', bce_state = [],
                    bce_tags = [], bce_tags_all = [], bce_type = ''UNMANAGED'',
                    bce_arn = [], bce_ecs_cluster_arn = [], bce_status = [],
                    bce_status_reason = [] \<rparr>,
       rd_cfg = \<lparr> bce_compute_environment_name = ''ce'',
                  bce_compute_environment_name_prefix = [],
                  bce_compute_resources = [], bce_service_role = ''role'', bce_state = [],
                  bce_tags = [], bce_tags_all = [], bce_type = ''UNMANAGED'',
                  bce_arn = [], bce_ecs_cluster_arn = [], bce_status = [],
                  bce_status_reason = [] \<rparr>,
       rd_Timeout = (\<lambda>k. 5) \<rparr>"

text \<open>A managed environment configured without compute resources.\<close>

definition managedWithoutResources :: "batch_compute_environment ResourceData" where
  "managedWithoutResources =
     (unmanagedEnvironment [])
       \<lparr>rd_cfg := (rd_cfg (unmanagedEnvironment []))\<lparr>bce_type := ''MANAGED''\<rparr>\<rparr>"

text \<open>An SSM endpoint that creates and describes the document \<open>doc\<close>.\<close>

definition describedDocument :: DocumentDescription where
  "describedDocument =
     \<lparr> dd_Name = Some ''doc'', dd_CreatedDate = ''2021-01-01T00:00:00Z'',
       dd_DefaultVersion = Some ''1'', dd_Description = None, dd_SchemaVersion = Some ''2.2'',
       dd_DocumentFormat = Some ''JSON'', dd_DocumentType = Some ''Command'',
       dd_DocumentVersion = Some ''1'', dd_Hash = None, dd_HashType = None,
       dd_LatestVersion = Some ''1'', dd_VersionName = None, dd_Owner = Some ''123456789012'',
       dd_PlatformTypes = [], dd_Status = Some ''Active'', dd_Parameters = [], dd_Tags = [],
       dd_TargetType = None \<rparr>"

definition servingSsm :: ssm_conn where
  "servingSsm =
     \<lparr> ssm_CreateDocument = (\<lambda>cs. Inr (Some describedDocument)),
       ssm_DescribeDocument = (\<lambda>cs. Inr (Some describedDocument)),
       ssm_GetDocument = (\<lambda>cs. Inr (Some (Some ''{}''))),
       ssm_DescribeDocumentPermission = (\<lambda>cs. Inr []),
       ssm_ModifyDocumentPermission = (\<lambda>cs. None),
       ssm_DeleteDocument = (\<lambda>cs. None),
       ssm_waiter_DocumentActive = (\<lambda>cs. None),
       ssm_waiter_DocumentDeleted = (\<lambda>cs. None) \<rparr>"

text \<open>An ELBv2 endpoint that creates and finds one application load balancer.\<close>

definition exampleArn :: string where
  "exampleArn = ''arn:aws:elasticloadbalancing:us-east-1:123456789012:loadbalancer/app/lb/50dc6c495c0c9188''"

definition createdLoadBalancer :: LoadBalancer where
  "createdLoadBalancer =
     \<lparr> lb_LoadBalancerArn = Some exampleArn, lb_LoadBalancerName = Some ''lb'',
       lb_Scheme = None, lb_SecurityGroups = [], lb_VpcId = None,
       lb_CanonicalHostedZoneId = None, lb_DNSName = None, lb_IpAddressType = None,
       lb_Type = Some ''application'', lb_CustomerOwnedIpv4Pool = None,
       lb_AvailabilityZones = [] \<rparr>"

definition servingElbv2 :: elbv2_conn where
  "servingElbv2 =
     quietElbv2
       \<lparr> elbv2_CreateLoadBalancer := (\<lambda>cs. Inr [createdLoadBalancer]),
         elbv2_finder_LoadBalancerByARN := (\<lambda>cs. Inr (Some createdLoadBalancer)) \<rparr>"

definition servingClient :: AWSClient where
  "servingClient =
     quietClient\<lparr>ssmconn := servingSsm, batchconn := lifecycleBatch, elbv2conn := servingElbv2\<rparr>"

definition loadBalancerConfig :: load_balancer where
  "loadBalancerConfig =
     \<lparr> lbc_name = ''lb'', lbc_name_prefix = [], lbc_load_balancer_type = ''application'',
       lbc_tags = [], lbc_internal = False, lbc_security_groups = [], lbc_subnets = [],
       lbc_subnet_mapping = [], lbc_ip_address_type = [], lbc_customer_owned_ipv4_pool = [],
       lbc_access_logs = [], lbc_idle_timeout = 60, lbc_enable_http2 = True,
       lbc_drop_invalid_header_fields = False, lbc_enable_cross_zone_load_balancing = False,
       lbc_enable_deletion_protection = False, lbc_arn = [], lbc_arn_suffix = [],
       lbc_vpc_id = [], lbc_zone_id = [], lbc_dns_name = [] \<rparr>"

definition loadBalancerData :: "string \<Rightarrow> load_balancer ResourceData" where
  "loadBalancerData ident =
     \<lparr> rd_Id = ident, rd_IsNewResource = (ident = []),
       rd_state = loadBalancerConfig, rd_cfg = loadBalancerConfig,
       rd_Timeout = (\<lambda>k. 5) \<rparr>"

text \<open>An EC2 endpoint whose describe call fails.\<close>

definition failingEc2 :: ec2_conn where
  "failingEc2 =
     quietEc2\<lparr>ec2_DescribeNetworkInterfaces :=
                (\<lambda>cs. Inl (AWSError ''RequestLimitExceeded'' ''slow down''))\<rparr>"

section \<open>Properties of the permission helpers\<close>

lemma strings_Split_no_sep: "sep \<notin> set x \<Longrightarrow> strings_Split sep x = [x]"
  by (induction x) auto

lemma strings_Split_append_sep:
  "sep \<notin> set x \<Longrightarrow> strings_Split sep (x @ sep # s) = x # strings_Split sep s"
  by (induction x) (auto split: list.splits)

lemma strings_Split_Join:
  "xs \<noteq> [] \<Longrightarrow> \<forall>x\<in>set xs. sep \<notin> set x \<Longrightarrow> strings_Split sep (strings_Join sep xs) = xs"
proof (induction sep xs rule: strings_Join.induct)
  case (1 sep)
  then show ?case by simp
next
  case (2 sep x)
  then show ?case by (simp add: strings_Split_no_sep)
next
  case (3 sep x y ys)
  then show ?case by (simp add: strings_Split_append_sep)
qed

lemma strings_Join_nonempty: "xs \<noteq> [] \<Longrightarrow> hd xs \<noteq> [] \<Longrightarrow> strings_Join sep xs \<noteq> []"
  by (induction sep xs rule: strings_Join.induct) auto

lemma joinAccountIds_Join: "xs \<noteq> [] \<Longrightarrow> joinAccountIds xs = strings_Join (CHR '','') xs"
  by (cases xs; cases "tl xs") (auto simp: joinAccountIds_def)

lemma split_join_account_ids:
  assumes "account_ids \<noteq> []"
    and "\<forall>a\<in>set account_ids. a \<noteq> [] \<and> CHR '','' \<notin> set a"
  shows "joinAccountIds account_ids \<noteq> []"
    and "strings_Split (CHR '','') (joinAccountIds account_ids) = account_ids"
proof -
  have j: "joinAccountIds account_ids = strings_Join (CHR '','') account_ids"
    using assms(1) by (rule joinAccountIds_Join)
  have "hd account_ids \<noteq> []" using assms by (cases account_ids) auto
  then show "joinAccountIds account_ids \<noteq> []"
    using assms(1) by (simp add: j strings_Join_nonempty)
  have "\<forall>a\<in>set account_ids. CHR '','' \<notin> set a" using assms(2) by blast
  with assms(1) show "strings_Split (CHR '','') (joinAccountIds account_ids) = account_ids"
    unfolding j by (rule strings_Split_Join)
qed

text \<open>
  C10. For a list of account ids that is not empty, whose ids are not empty and hold no
  comma: \<open>getDocumentPermissions\<close>, when the describe call answers with these ids,
  returns a permissions map whose entry \<open>account_ids\<close> decodes, by the splitting of
  \<open>setDocumentPermissions\<close> and \<open>deleteDocumentPermissions\<close>, to exactly these ids in
  their order.
\<close>

theorem account_ids_join_split_roundtrip:
  assumes "account_ids \<noteq> []"
    and "\<forall>a\<in>set account_ids. a \<noteq> [] \<and> CHR '','' \<notin> set a"
    and "ssm_DescribeDocumentPermission (ssmconn meta)
           (cs @ [DescribeDocumentPermission (sd_name (rd_cfg d)) ''Share'']) = Inr account_ids"
  shows "\<exists>perms. fst (getDocumentPermissions meta d cs) = Inr perms
           \<and> perms ''account_ids'' = Some (IString (joinAccountIds account_ids))
           \<and> splitAccountIds perms = account_ids"
proof -
  have ne: "joinAccountIds account_ids \<noteq> []"
    using assms(1,2) by (rule split_join_account_ids(1))
  have sp: "strings_Split (CHR '','') (joinAccountIds account_ids) = account_ids"
    using assms(1,2) by (rule split_join_account_ids(2))
  let ?perms = "[''type'' \<mapsto> IString ''Share'',
                 ''account_ids'' \<mapsto> IString (joinAccountIds account_ids)]"
  have "fst (getDocumentPermissions meta d cs) = Inr ?perms"
    using assms(3) ne by (simp add: getDocumentPermissions_def Let_def)
  moreover have "splitAccountIds ?perms = account_ids"
    using ne sp by (simp add: splitAccountIds_def)
  ultimately show ?thesis by simp
qed

section \<open>Properties of the batches\<close>

lemma batchLoop_concat:
  "concat (fst (batchLoop ids bs b)) @ snd (batchLoop ids bs b) = concat bs @ b @ ids"
  by (induction ids bs b rule: batchLoop.induct) auto

lemma batchLoop_bound:
  "\<forall>x\<in>set bs. length x \<le> SSM_DOCUMENT_PERMISSIONS_BATCH_LIMIT \<Longrightarrow>
   length b \<le> SSM_DOCUMENT_PERMISSIONS_BATCH_LIMIT \<Longrightarrow>
   (\<forall>x\<in>set (fst (batchLoop ids bs b)). length x \<le> SSM_DOCUMENT_PERMISSIONS_BATCH_LIMIT)
   \<and> length (snd (batchLoop ids bs b)) \<le> SSM_DOCUMENT_PERMISSIONS_BATCH_LIMIT"
proof (induction ids bs b rule: batchLoop.induct)
  case (1 batches batch)
  then show ?case by simp
next
  case (2 accountId rest batches batch)
  show ?case
  proof (cases "length batch = SSM_DOCUMENT_PERMISSIONS_BATCH_LIMIT")
    case True
    have a: "\<forall>x\<in>set (batches @ [batch]). length x \<le> SSM_DOCUMENT_PERMISSIONS_BATCH_LIMIT"
      using "2.prems" by simp
    have b: "length [accountId] \<le> SSM_DOCUMENT_PERMISSIONS_BATCH_LIMIT"
      by (simp add: SSM_DOCUMENT_PERMISSIONS_BATCH_LIMIT_def)
    have eq: "batchLoop (accountId # rest) batches batch
                = batchLoop rest (batches @ [batch]) [accountId]"
      using True by simp
    show ?thesis unfolding eq using True a b by (rule "2.IH"(1))
  next
    case False
    have b: "length (batch @ [accountId]) \<le> SSM_DOCUMENT_PERMISSIONS_BATCH_LIMIT"
      using False "2.prems"(2) by simp
    have eq: "batchLoop (accountId # rest) batches batch
                = batchLoop rest batches (batch @ [accountId])"
      using False by simp
    show ?thesis unfolding eq using False "2.prems"(1) b by (rule "2.IH"(2))
  qed
qed

lemma accountIdBatches_concat: "concat (accountIdBatches ids) = ids"
proof -
  obtain bs b where r: "batchLoop ids [] [] = (bs, b)" by (cases "batchLoop ids [] []")
  from batchLoop_concat[of ids "[]" "[]"] r have "concat bs @ b = ids" by simp
  then show ?thesis by (simp add: accountIdBatches_def r)
qed

lemma accountIdBatches_bound:
  "\<forall>b\<in>set (accountIdBatches ids). length b \<le> SSM_DOCUMENT_PERMISSIONS_BATCH_LIMIT"
proof -
  obtain bs b where r: "batchLoop ids [] [] = (bs, b)" by (cases "batchLoop ids [] []")
  from batchLoop_bound[of "[]" "[]" ids] r
  have "(\<forall>x\<in>set bs. length x \<le> SSM_DOCUMENT_PERMISSIONS_BATCH_LIMIT)
          \<and> length b \<le> SSM_DOCUMENT_PERMISSIONS_BATCH_LIMIT" by simp
  then show ?thesis by (simp add: accountIdBatches_def r)
qed

lemma modifyBatches_None_log:
  "fst (modifyBatches conn mk bs cs) = None \<Longrightarrow> snd (modifyBatches conn mk bs cs) = cs @ map mk bs"
proof (induction bs arbitrary: cs)
  case Nil
  then show ?case by simp
next
  case (Cons b bs)
  show ?case
  proof (cases "ssm_ModifyDocumentPermission conn (cs @ [mk b])")
    case None
    then have eq: "modifyBatches conn mk (b # bs) cs = modifyBatches conn mk bs (cs @ [mk b])"
      by simp
    then have "fst (modifyBatches conn mk bs (cs @ [mk b])) = None"
      using Cons.prems by simp
    then have "snd (modifyBatches conn mk bs (cs @ [mk b])) = (cs @ [mk b]) @ map mk bs"
      by (rule Cons.IH)
    then show ?thesis unfolding eq by simp
  next
    case (Some e)
    then have "modifyBatches conn mk (b # bs) cs = (Some e, cs @ [mk b])" by simp
    then show ?thesis using Cons.prems by simp
  qed
qed

lemma modifyBatches_is_prefix:
  "prefix (snd (modifyBatches conn mk bs cs)) (cs @ map mk bs)"
proof (induction bs arbitrary: cs)
  case Nil
  then show ?case by simp
next
  case (Cons b bs)
  show ?case
  proof (cases "ssm_ModifyDocumentPermission conn (cs @ [mk b])")
    case None
    then have eq: "modifyBatches conn mk (b # bs) cs = modifyBatches conn mk bs (cs @ [mk b])"
      by simp
    have "prefix (snd (modifyBatches conn mk bs (cs @ [mk b]))) ((cs @ [mk b]) @ map mk bs)"
      by (rule Cons.IH)
    then show ?thesis unfolding eq by simp
  next
    case (Some e)
    then have "modifyBatches conn mk (b # bs) cs = (Some e, cs @ [mk b])" by simp
    then show ?thesis by simp
  qed
qed

text \<open>The batches of a slice that may be nil: no batch for a nil slice.\<close>

lemma modifyDocumentPermissions_unfold:
  "modifyDocumentPermissions conn name adds rems cs =
     (case modifyBatches conn (\<lambda>b. ModifyDocumentPermission name ''Share'' b [])
             (case adds of None \<Rightarrow> [] | Some ids \<Rightarrow> accountIdBatches ids) cs of
        (Some e, cs1) \<Rightarrow> (Some e, cs1)
      | (None, cs1) \<Rightarrow>
          modifyBatches conn (\<lambda>b. ModifyDocumentPermission name ''Share'' [] b)
            (case rems of None \<Rightarrow> [] | Some ids \<Rightarrow> accountIdBatches ids) cs1)"
  by (cases adds; cases rems)
     (auto simp: modifyDocumentPermissions_def split: prod.splits option.splits)

lemma modifyDocumentPermissions_log:
  fixes conn name adds rems cs
  defines "addBatches \<equiv> (case adds of None \<Rightarrow> [] | Some ids \<Rightarrow> accountIdBatches ids)"
    and "removeBatches \<equiv> (case rems of None \<Rightarrow> [] | Some ids \<Rightarrow> accountIdBatches ids)"
  defines "requests \<equiv> map (\<lambda>b. ModifyDocumentPermission name ''Share'' b []) addBatches
                      @ map (\<lambda>b. ModifyDocumentPermission name ''Share'' [] b) removeBatches"
  shows "prefix (snd (modifyDocumentPermissions conn name adds rems cs)) (cs @ requests)"
    and "fst (modifyDocumentPermissions conn name adds rems cs) = None
           \<Longrightarrow> snd (modifyDocumentPermissions conn name adds rems cs) = cs @ requests"
proof -
  let ?mkA = "\<lambda>b. ModifyDocumentPermission name ''Share'' b []"
  let ?mkR = "\<lambda>b. ModifyDocumentPermission name ''Share'' [] b"
  let ?A = "modifyBatches conn ?mkA addBatches cs"
  obtain r1 cs1 where A: "?A = (r1, cs1)" by (cases ?A)
  have unf: "modifyDocumentPermissions conn name adds rems cs =
     (case ?A of (Some e, cs1) \<Rightarrow> (Some e, cs1)
      | (None, cs1) \<Rightarrow> modifyBatches conn ?mkR removeBatches cs1)"
    unfolding addBatches_def removeBatches_def by (rule modifyDocumentPermissions_unfold)
  have pA: "prefix (snd ?A) (cs @ map ?mkA addBatches)"
    by (rule modifyBatches_is_prefix)
  show "prefix (snd (modifyDocumentPermissions conn name adds rems cs)) (cs @ requests)"
  proof (cases r1)
    case None
    have "fst ?A = None" using A None by simp
    then have "snd ?A = cs @ map ?mkA addBatches" by (rule modifyBatches_None_log)
    then have cs1: "cs1 = cs @ map ?mkA addBatches" using A by simp
    have "prefix (snd (modifyBatches conn ?mkR removeBatches cs1)) (cs1 @ map ?mkR removeBatches)"
      by (rule modifyBatches_is_prefix)
    then have "prefix (snd (modifyBatches conn ?mkR removeBatches cs1)) (cs @ requests)"
      unfolding cs1 requests_def by simp
    moreover have "modifyDocumentPermissions conn name adds rems cs
                     = modifyBatches conn ?mkR removeBatches cs1"
      unfolding unf A None by simp
    ultimately show ?thesis by simp
  next
    case (Some e)
    have "prefix (snd ?A) ((cs @ map ?mkA addBatches) @ map ?mkR removeBatches)"
      using pA by (rule prefix_prefix)
    then have "prefix cs1 (cs @ requests)" unfolding A requests_def by simp
    moreover have "modifyDocumentPermissions conn name adds rems cs = (Some e, cs1)"
      unfolding unf A Some by simp
    ultimately show ?thesis by simp
  qed
  show "snd (modifyDocumentPermissions conn name adds rems cs) = cs @ requests"
    if ok: "fst (modifyDocumentPermissions conn name adds rems cs) = None"
  proof (cases r1)
    case None
    have "fst ?A = None" using A None by simp
    then have "snd ?A = cs @ map ?mkA addBatches" by (rule modifyBatches_None_log)
    then have cs1: "cs1 = cs @ map ?mkA addBatches" using A by simp
    have eq: "modifyDocumentPermissions conn name adds rems cs
                = modifyBatches conn ?mkR removeBatches cs1"
      unfolding unf A None by simp
    then have "fst (modifyBatches conn ?mkR removeBatches cs1) = None" using ok by simp
    then have "snd (modifyBatches conn ?mkR removeBatches cs1) = cs1 @ map ?mkR removeBatches"
      by (rule modifyBatches_None_log)
    then show ?thesis unfolding eq cs1 requests_def by simp
  next
    case (Some e)
    have "modifyDocumentPermissions conn name adds rems cs = (Some e, cs1)"
      unfolding unf A Some by simp
    then show ?thesis using ok by simp
  qed
qed

text \<open>
  C8. \<open>modifyDocumentPermissions\<close> cuts each of its two lists of account ids (a nil
  list aside, which is skipped) into batches whose concatenation is the list, so every
  id is in exactly one batch and the order is kept, each batch of at most
  \<open>SSM_DOCUMENT_PERMISSIONS_BATCH_LIMIT = 20\<close> ids. The requests it sends are
  \<open>ModifyDocumentPermission\<close> requests, one for each batch in order, the batches to add
  first: what is sent is always an initial part of that sequence, and the whole of it
  when the function returns without error (it stops at the first request that fails).
\<close>

theorem modifyDocumentPermissions_batches:
  fixes conn name adds rems cs ids
  defines "requests \<equiv>
     map (\<lambda>b. ModifyDocumentPermission name ''Share'' b [])
       (case adds of None \<Rightarrow> [] | Some ids \<Rightarrow> accountIdBatches ids)
     @ map (\<lambda>b. ModifyDocumentPermission name ''Share'' [] b)
       (case rems of None \<Rightarrow> [] | Some ids \<Rightarrow> accountIdBatches ids)"
  shows "concat (accountIdBatches ids) = ids
     \<and> (\<forall>batch\<in>set (accountIdBatches ids). length batch \<le> 20)
     \<and> SSM_DOCUMENT_PERMISSIONS_BATCH_LIMIT = 20
     \<and> prefix (snd (modifyDocumentPermissions conn name adds rems cs)) (cs @ requests)
     \<and> (fst (modifyDocumentPermissions conn name adds rems cs) = None
          \<longrightarrow> snd (modifyDocumentPermissions conn name adds rems cs) = cs @ requests)"
proof -
  have "\<forall>batch\<in>set (accountIdBatches ids). length batch \<le> 20"
    using accountIdBatches_bound[of ids] by (simp add: SSM_DOCUMENT_PERMISSIONS_BATCH_LIMIT_def)
  moreover have "prefix (snd (modifyDocumentPermissions conn name adds rems cs)) (cs @ requests)"
    unfolding requests_def by (rule modifyDocumentPermissions_log(1))
  moreover have "fst (modifyDocumentPermissions conn name adds rems cs) = None
          \<longrightarrow> snd (modifyDocumentPermissions conn name adds rems cs) = cs @ requests"
    unfolding requests_def using modifyDocumentPermissions_log(2) by blast
  ultimately show ?thesis
    by (simp add: accountIdBatches_concat SSM_DOCUMENT_PERMISSIONS_BATCH_LIMIT_def)
qed

theorem account_ids_join_split_roundtrip_witness:
  "[''111111111111'', ''222222222222''] \<noteq> []
   \<and> list_all (\<lambda>a. a \<noteq> [] \<and> CHR '','' \<notin> set a) [''111111111111'', ''222222222222'']
   \<and> (\<exists>perms.
        fst (getDocumentPermissions
               (quietClient\<lparr>ssmconn := quietSsm\<lparr>ssm_DescribeDocumentPermission :=
                                (\<lambda>cs. Inr [''111111111111'', ''222222222222''])\<rparr>\<rparr>)
               (documentData ''doc'' Map.empty Map.empty) []) = Inr perms
        \<and> perms ''account_ids'' = Some (IString ''111111111111,222222222222'')
        \<and> splitAccountIds perms = [''111111111111'', ''222222222222''])"
  using account_ids_join_split_roundtrip
          [of "[''111111111111'', ''222222222222'']"
              "quietClient\<lparr>ssmconn := quietSsm\<lparr>ssm_DescribeDocumentPermission :=
                                (\<lambda>cs. Inr [''111111111111'', ''222222222222''])\<rparr>\<rparr>"
              "[]" "documentData ''doc'' Map.empty Map.empty"]
  by (simp add: joinAccountIds_def)

theorem modifyDocumentPermissions_batches_witness:
  "accountIdBatches (replicate 21 ''111111111111'')
     = [replicate 20 ''111111111111'', [''111111111111'']]
   \<and> modifyDocumentPermissions quietSsm ''doc'' None
        (Some (replicate 21 ''111111111111'')) []
     = (None, [ModifyDocumentPermission ''doc'' ''Share'' [] (replicate 20 ''111111111111''),
               ModifyDocumentPermission ''doc'' ''Share'' [] [''111111111111'']])"
proof -
  have b: "accountIdBatches (replicate 21 ''111111111111'')
     = [replicate 20 ''111111111111'', [''111111111111'']]"
    by (simp add: accountIdBatches_def SSM_DOCUMENT_PERMISSIONS_BATCH_LIMIT_def eval_nat_numeral)
  have ok: "fst (modifyDocumentPermissions quietSsm ''doc'' None
        (Some (replicate 21 ''111111111111'')) []) = None"
    by (simp add: modifyDocumentPermissions_def b quietSsm_def)
  from modifyDocumentPermissions_batches
         [of "replicate 21 ''111111111111''" quietSsm "''doc''" None
             "Some (replicate 21 ''111111111111'')" "[]"] ok
  have "snd (modifyDocumentPermissions quietSsm ''doc'' None
        (Some (replicate 21 ''111111111111'')) [])
     = [ModifyDocumentPermission ''doc'' ''Share'' [] (replicate 20 ''111111111111''),
        ModifyDocumentPermission ''doc'' ''Share'' [] [''111111111111'']]"
    by (simp add: b)
  with ok b show ?thesis by (simp add: prod_eq_iff)
qed

section \<open>Properties of the validation\<close>

text \<open>
  C9. \<open>validateSSMDocumentPermissions\<close> returns no error exactly when the entry \<open>type\<close>
  of the map is the string \<open>Share\<close> and the entry \<open>account_ids\<close> is a string. Each of
  the two conditions that is violated (the type missing, not a string or not \<open>Share\<close>;
  the account ids missing or not a string) adds exactly one error.
\<close>

theorem validateSSMDocumentPermissions_errors:
  "(validateSSMDocumentPermissions v = []
      \<longleftrightarrow> v ''type'' = Some (IString ''Share'') \<and> (\<exists>a. v ''account_ids'' = Some (IString a)))
   \<and> length (validateSSMDocumentPermissions v) =
       (if v ''type'' = Some (IString ''Share'') then 0 else 1)
       + (if \<exists>a. v ''account_ids'' = Some (IString a) then 0 else 1)"
proof -
  obtain t ht where t: "assertString (v ''type'') = (t, ht)" by (cases "assertString (v ''type'')")
  obtain a ha where a: "assertString (v ''account_ids'') = (a, ha)"
    by (cases "assertString (v ''account_ids'')")
  have T: "(ht \<and> t = ''Share'') = (v ''type'' = Some (IString ''Share''))"
    using t by (cases "v ''type''" rule: assertString.cases) auto
  have A: "ha = (\<exists>a. v ''account_ids'' = Some (IString a))"
    using a by (cases "v ''account_ids''" rule: assertString.cases) auto
  have len: "length (validateSSMDocumentPermissions v) =
      (if ht \<and> t = ''Share'' then 0 else 1) + (if ha then 0 else 1)"
    by (simp add: validateSSMDocumentPermissions_def t a DocumentPermissionTypeShare_def)
  then have "(validateSSMDocumentPermissions v = []) = ((ht \<and> t = ''Share'') \<and> ha)"
    by (simp add: length_0_conv[symmetric] del: length_0_conv)
  with len show ?thesis unfolding T A by simp
qed

theorem validateSSMDocumentPermissions_errors_witness:
  "validateSSMDocumentPermissions
      [''type'' \<mapsto> IString ''Share'', ''account_ids'' \<mapsto> IString ''111111111111''] = []
   \<and> validateSSMDocumentPermissions [''type'' \<mapsto> IString ''Read'']
       = [Errorf ''permissions: only Share type supported'',
          Errorf ''permissions: account_ids must be defined'']
   \<and> length (validateSSMDocumentPermissions [''account_ids'' \<mapsto> IInt 5]) = 2"
  using validateSSMDocumentPermissions_errors
          [of "[''type'' \<mapsto> IString ''Share'', ''account_ids'' \<mapsto> IString ''111111111111'']"]
        validateSSMDocumentPermissions_errors [of "[''type'' \<mapsto> IString ''Read'']"]
        validateSSMDocumentPermissions_errors [of "[''account_ids'' \<mapsto> IInt 5]"]
  by (simp add: validateSSMDocumentPermissions_def DocumentPermissionTypeShare_def)

end
